theory Spec2Isabelle
  imports Complex_Main
begin

section \<open>JavaScript values\<close>

text \<open>
  The handlers work on untyped JSON (\<^verbatim>\<open>any\<close>). A value is one of the JSON shapes
  the code can meet in a scalar field. Numbers are the integers: identifiers, point
  values, time values in milliseconds and day counts; NaN and fractions are outside the
  model. Strings are byte lists (UTF-8).
\<close>

datatype jsval = JUndefined | JNull | JBool bool | JNum int | JStr string | JObj

text \<open>Truthiness, as \<^verbatim>\<open>if (v)\<close>, \<^verbatim>\<open>!v\<close> and \<^verbatim>\<open>||\<close> read a value.\<close>

fun truthy :: "jsval \<Rightarrow> bool" where
  "truthy JUndefined = False"
| "truthy JNull = False"
| "truthy (JBool b) = b"
| "truthy (JNum n) = (n \<noteq> 0)"
| "truthy (JStr s) = (s \<noteq> [])"
| "truthy JObj = True"

text \<open>\<^verbatim>\<open>a || b\<close>: the first operand when it is truthy, the second otherwise.\<close>

definition js_or :: "jsval \<Rightarrow> jsval \<Rightarrow> jsval" where
  "js_or a b = (if truthy a then a else b)"

subsection \<open>Strings\<close>

definition digit_char :: "nat \<Rightarrow> char" where
  "digit_char d = ''0123456789'' ! d"

fun dec_nat :: "nat \<Rightarrow> string" where
  "dec_nat n = (if n < 10 then [digit_char n] else dec_nat (n div 10) @ [digit_char (n mod 10)])"

declare dec_nat.simps [simp del]

definition dec_int :: "int \<Rightarrow> string" where
  "dec_int i = (if i < 0 then CHR ''-'' # dec_nat (nat (- i)) else dec_nat (nat i))"

text \<open>A value inside a template literal \<^verbatim>\<open>`${v}`\<close>.\<close>

fun to_str :: "jsval \<Rightarrow> string" where
  "to_str JUndefined = ''undefined''"
| "to_str JNull = ''null''"
| "to_str (JBool b) = (if b then ''true'' else ''false'')"
| "to_str (JNum n) = dec_int n"
| "to_str (JStr s) = s"
| "to_str JObj = ''[object Object]''"

fun starts_with :: "string \<Rightarrow> string \<Rightarrow> bool" where
  "starts_with [] s = True"
| "starts_with (p # ps) [] = False"
| "starts_with (p # ps) (c # cs) = (p = c \<and> starts_with ps cs)"

text \<open>\<^verbatim>\<open>s.includes(sub)\<close> on strings.\<close>

fun includes_str :: "string \<Rightarrow> string \<Rightarrow> bool" where
  "includes_str [] sub = (sub = [])"
| "includes_str (c # cs) sub = (starts_with sub (c # cs) \<or> includes_str cs sub)"

text \<open>
  \<^verbatim>\<open>s.split(sep)\<close> for a non-empty separator: \<open>k\<close> counts the characters of a
  separator still to be dropped, \<open>cur\<close> holds the current piece reversed.
\<close>

fun split_aux :: "string \<Rightarrow> nat \<Rightarrow> string \<Rightarrow> string \<Rightarrow> string list" where
  "split_aux sep k cur [] = [rev cur]"
| "split_aux sep k cur (c # cs) =
     (if 0 < k then split_aux sep (k - 1) cur cs
      else if starts_with sep (c # cs) then rev cur # split_aux sep (length sep - 1) [] cs
      else split_aux sep 0 (c # cur) cs)"

definition split_str :: "string \<Rightarrow> string \<Rightarrow> string list" where
  "split_str s sep = split_aux sep 0 [] s"

text \<open>\<^verbatim>\<open>xs[i]\<close> on an array of strings: \<^verbatim>\<open>undefined\<close> past the end.\<close>

definition at_index :: "string list \<Rightarrow> nat \<Rightarrow> jsval" where
  "at_index xs i = (if i < length xs then JStr (xs ! i) else JUndefined)"

section \<open>The runtime: dates and locale formatting\<close>

text \<open>
  The code reads dates through the runtime's \<^verbatim>\<open>Date\<close> and \<^verbatim>\<open>Intl\<close>. What is
  implementation-defined there is a parameter of the model: how a string parses to a time
  value (\<open>None\<close> is NaN, an Invalid Date), how a time value prints as ISO text, and the
  two \<^verbatim>\<open>toLocaleString('en-US', {timeZone: 'America/New_York', ...})\<close> calls of
  \<^verbatim>\<open>convertToEST\<close> (\<open>None\<close>: the call throws, as it does for a time zone the
  runtime has no data for), and \<^verbatim>\<open>d.setDate(d.getDate() + n)\<close>, which counts days on
  the wall clock of the process (\<open>None\<close>: the date becomes invalid).
\<close>

record platform =
  Date_parse :: "string \<Rightarrow> int option"
  toISOString :: "int \<Rightarrow> string"
  toLocaleString_2digit :: "int \<Rightarrow> string option"
  toLocaleString_long :: "int \<Rightarrow> string option"
  addDays :: "int \<Rightarrow> int \<Rightarrow> int option"

text \<open>
  \<^verbatim>\<open>new Date(number)\<close> is fixed by the language: TimeClip keeps a time value of at
  most 8.64e15 milliseconds either side of the epoch, anything beyond is an Invalid Date.
\<close>

definition TimeClip :: "int \<Rightarrow> int option" where
  "TimeClip n = (if \<bar>n\<bar> \<le> 8640000000000000 then Some n else None)"

text \<open>\<^verbatim>\<open>new Date(v).getTime()\<close>, \<open>None\<close> for NaN.\<close>

fun Date_new :: "platform \<Rightarrow> jsval \<Rightarrow> int option" where
  "Date_new P (JStr s) = Date_parse P s"
| "Date_new P (JNum n) = TimeClip n"
| "Date_new P (JBool b) = Some (if b then 1 else 0)"
| "Date_new P JNull = Some 0"
| "Date_new P JUndefined = None"
| "Date_new P JObj = Date_parse P ''[object Object]''"

text \<open>\<^verbatim>\<open>d.toISOString()\<close>: a RangeError on an Invalid Date (\<open>Inl\<close> its message).\<close>

definition Date_toISOString :: "platform \<Rightarrow> int option \<Rightarrow> string + string" where
  "Date_toISOString P d =
     (case d of None \<Rightarrow> Inl ''Invalid time value'' | Some t \<Rightarrow> Inr (toISOString P t))"

subsection \<open>convertToEST (index.ts)\<close>

record est_date =
  datetime :: string
  readable :: string

definition convertToEST :: "platform \<Rightarrow> jsval \<Rightarrow> est_date option" where
  "convertToEST P utcDateString =
     (if \<not> truthy utcDateString then None
      else case Date_new P utcDateString of
        None \<Rightarrow> None
      | Some date \<Rightarrow>
          (case toLocaleString_2digit P date of
             None \<Rightarrow> None
           | Some estDateStr \<Rightarrow>
               let parts = split_str estDateStr '', '' in
               (case parts of
                  [] \<Rightarrow> None
                | p0 # _ \<Rightarrow>
                    let datePart = split_str p0 ''/'';
                        timePart = at_index parts 1;
                        year = at_index datePart 2;
                        month = at_index datePart 0;
                        day = at_index datePart 1
                    in (case toLocaleString_long P date of
                          None \<Rightarrow> None
                        | Some r \<Rightarrow>
                            Some \<lparr>datetime = to_str year @ ''-'' @ to_str month @ ''-''
                                               @ to_str day @ ''T'' @ to_str timePart,
                                  readable = r\<rparr>))))"

subsection \<open>A model of the Node.js runtime\<close>

text \<open>
  The runtime itself is not part of the repository. This model follows ECMAScript's date
  algorithms (days from the epoch in the proleptic Gregorian calendar), V8's parser for
  the ISO form Canvas and \<^verbatim>\<open>toISOString\<close> emit
  (\<^verbatim>\<open>YYYY-MM-DDTHH:mm:ss[.sss]Z\<close>, the year also as \<^verbatim>\<open>+YYYYYY\<close>; any other text is
  outside the model and reads as invalid), the rule of America/New_York in force since 2007
  (daylight time from the second Sunday of March, 07:00 UTC, to the first Sunday of
  November, 06:00 UTC) and the en-US patterns of the two format calls. The process
  itself runs on UTC. Each step is a function of its own, so that a term is evaluated
  once before it is used.
\<close>

definition ms_per_day :: int where
  "ms_per_day = 86400000"

text \<open>
  Day number of a civil date, counted from 1 January 1970, with the year starting in
  March: \<open>y1\<close> is that shifted year, \<open>doy\<close> the day within it.
\<close>

definition era_days :: "int \<Rightarrow> int \<Rightarrow> int" where
  "era_days y1 doy =
     (y1 div 400) * 146097
       + ((y1 mod 400) * 365 + (y1 mod 400) div 4 - (y1 mod 400) div 100 + doy) - 719468"

definition days_from_civil :: "int \<Rightarrow> int \<Rightarrow> int \<Rightarrow> int" where
  "days_from_civil y m d =
     era_days (if m \<le> 2 then y - 1 else y)
              ((153 * (if 2 < m then m - 3 else m + 9) + 2) div 5 + d - 1)"

text \<open>The civil date of a day number: year, month, day.\<close>

definition civil_ymd :: "int \<Rightarrow> int \<Rightarrow> int \<Rightarrow> int \<times> int \<times> int" where
  "civil_ymd y m d = (if m \<le> 2 then y + 1 else y, m, d)"

definition civil_mp :: "int \<Rightarrow> int \<Rightarrow> int \<Rightarrow> int \<times> int \<times> int" where
  "civil_mp y doy mp =
     civil_ymd y (if mp < 10 then mp + 3 else mp - 9) (doy - (153 * mp + 2) div 5 + 1)"

definition civil_doy :: "int \<Rightarrow> int \<Rightarrow> int \<times> int \<times> int" where
  "civil_doy y doy = civil_mp y doy ((5 * doy + 2) div 153)"

definition civil_yoe :: "int \<Rightarrow> int \<Rightarrow> int \<Rightarrow> int \<times> int \<times> int" where
  "civil_yoe era doe yoe =
     civil_doy (yoe + era * 400) (doe - (365 * yoe + yoe div 4 - yoe div 100))"

definition civil_doe :: "int \<Rightarrow> int \<Rightarrow> int \<times> int \<times> int" where
  "civil_doe era doe =
     civil_yoe era doe ((doe - doe div 1460 + doe div 36524 - doe div 146096) div 365)"

definition civil_from_days :: "int \<Rightarrow> int \<times> int \<times> int" where
  "civil_from_days z = civil_doe ((z + 719468) div 146097) ((z + 719468) mod 146097)"

text \<open>The first Sunday on or after a day number (day 0, 1 January 1970, was a Thursday).\<close>

definition sunday_from :: "int \<Rightarrow> int" where
  "sunday_from d = d + (7 - (d + 4) mod 7) mod 7"

text \<open>The offset of New York from UTC at a time value, by the rule of the UTC year \<open>y\<close>.\<close>

definition ny_rule :: "int \<Rightarrow> int \<Rightarrow> int" where
  "ny_rule t y =
     (if (sunday_from (days_from_civil y 3 1) + 7) * ms_per_day + 7 * 3600000 \<le> t
         \<and> t < sunday_from (days_from_civil y 11 1) * ms_per_day + 6 * 3600000
      then - 14400000 else - 18000000)"

definition ny_offset_ms :: "int \<Rightarrow> int" where
  "ny_offset_ms t = ny_rule t (fst (civil_from_days (t div ms_per_day)))"

text \<open>Decimal digits with leading zeros up to a width.\<close>

definition pad2 :: "int \<Rightarrow> string" where
  "pad2 i = (if i < 10 then ''0'' else []) @ dec_int i"

definition pad3 :: "int \<Rightarrow> string" where
  "pad3 i = (if i < 10 then ''00'' else if i < 100 then ''0'' else []) @ dec_int i"

definition pad4 :: "int \<Rightarrow> string" where
  "pad4 i = (if i < 1000 then ''0'' @ pad3 i else dec_int i)"

definition pad6 :: "int \<Rightarrow> string" where
  "pad6 i = (if i < 10000 then ''00'' @ pad4 i else if i < 100000 then ''0'' @ dec_int i
             else dec_int i)"

definition month_name :: "int \<Rightarrow> string" where
  "month_name m =
     [''January'', ''February'', ''March'', ''April'', ''May'', ''June'', ''July'', ''August'',
      ''September'', ''October'', ''November'', ''December''] ! nat ((m - 1) mod 12)"

text \<open>Hour, minute, second and millisecond of a time value.\<close>

definition hms :: "int \<Rightarrow> int \<times> int \<times> int \<times> int" where
  "hms t = ((t mod ms_per_day) div 3600000, (t mod 3600000) div 60000,
            (t mod 60000) div 1000, t mod 1000)"

fun iso_text :: "int \<times> int \<times> int \<Rightarrow> int \<times> int \<times> int \<times> int \<Rightarrow> string" where
  "iso_text (y, m, d) (hh, mi, ss, ms) =
     (if 0 \<le> y \<and> y \<le> 9999 then pad4 y else (if y < 0 then ''-'' else ''+'') @ pad6 \<bar>y\<bar>)
       @ ''-'' @ pad2 m @ ''-'' @ pad2 d @ ''T'' @ pad2 hh @ '':'' @ pad2 mi @ '':'' @ pad2 ss
       @ ''.'' @ pad3 ms @ ''Z''"

definition node_toISOString :: "int \<Rightarrow> string" where
  "node_toISOString t = iso_text (civil_from_days (t div ms_per_day)) (hms t)"

text \<open>The wall clock of New York at a time value, as a time value of its own.\<close>

definition ny_local :: "int \<Rightarrow> int" where
  "ny_local t = t + ny_offset_ms t"

text \<open>
  \<^verbatim>\<open>{year: 'numeric', month: '2-digit', day: '2-digit', hour: '2-digit', minute: '2-digit',
  second: '2-digit', hour12: false}\<close>: \<^verbatim>\<open>MM/DD/YYYY, HH:mm:ss\<close> on the local
  wall clock, hours from 00 to 23.
\<close>

fun text_2digit :: "int \<times> int \<times> int \<Rightarrow> int \<times> int \<times> int \<times> int \<Rightarrow> string" where
  "text_2digit (y, m, d) (hh, mi, ss, ms) =
     pad2 m @ ''/'' @ pad2 d @ ''/'' @ dec_int y @ '', '' @ pad2 hh @ '':'' @ pad2 mi
       @ '':'' @ pad2 ss"

definition local_2digit :: "int \<Rightarrow> string" where
  "local_2digit l = text_2digit (civil_from_days (l div ms_per_day)) (hms l)"

definition node_toLocaleString_2digit :: "int \<Rightarrow> string option" where
  "node_toLocaleString_2digit t = Some (local_2digit (ny_local t))"

text \<open>
  \<^verbatim>\<open>{year: 'numeric', month: 'long', day: 'numeric', hour: 'numeric', minute: '2-digit',
  hour12: true}\<close>: \<^verbatim>\<open>November 7, 2025 at 11:59 PM\<close>. The blank before the day
  period is a plain space here; recent ICU data prints a narrow no-break space there.
\<close>

fun text_long :: "int \<times> int \<times> int \<Rightarrow> int \<times> int \<times> int \<times> int \<Rightarrow> string" where
  "text_long (y, m, d) (hh, mi, ss, ms) =
     month_name m @ '' '' @ dec_int d @ '', '' @ dec_int y @ '' at ''
       @ dec_int (if hh mod 12 = 0 then 12 else hh mod 12) @ '':'' @ pad2 mi @ '' ''
       @ (if hh < 12 then ''AM'' else ''PM'')"

definition local_long :: "int \<Rightarrow> string" where
  "local_long l = text_long (civil_from_days (l div ms_per_day)) (hms l)"

definition node_toLocaleString_long :: "int \<Rightarrow> string option" where
  "node_toLocaleString_long t = Some (local_long (ny_local t))"

text \<open>Reading decimal digits: \<open>None\<close> unless every character is a digit.\<close>

definition digit_val :: "char \<Rightarrow> int option" where
  "digit_val c = (let n = (of_char c :: nat) in if 48 \<le> n \<and> n \<le> 57 then Some (int n - 48) else None)"

fun read_digits :: "int \<Rightarrow> string \<Rightarrow> int option" where
  "read_digits acc [] = Some acc"
| "read_digits acc (c # cs) =
     (case digit_val c of None \<Rightarrow> None | Some v \<Rightarrow> read_digits (10 * acc + v) cs)"

definition read_num :: "string \<Rightarrow> int option" where
  "read_num s = (if s = [] then None else read_digits 0 s)"

text \<open>
  The part after the year, \<^verbatim>\<open>-MM-DDTHH:mm:ss[.sss]Z\<close>, for year \<open>y\<close>. V8 accepts a
  day up to 31 in every month and lets it run into the next month; hour 24 only as
  24:00:00.
\<close>

definition parse_after_year :: "int \<Rightarrow> string \<Rightarrow> int option" where
  "parse_after_year y s =
     (if length s \<noteq> 16 \<and> length s \<noteq> 20 then None
      else if s ! 0 \<noteq> CHR ''-'' \<or> s ! 3 \<noteq> CHR ''-'' \<or> s ! 6 \<noteq> CHR ''T'' \<or> s ! 9 \<noteq> CHR '':''
              \<or> s ! 12 \<noteq> CHR '':'' \<or> last s \<noteq> CHR ''Z'' then None
      else if length s = 20 \<and> s ! 15 \<noteq> CHR ''.'' then None
      else
        case (read_num (take 2 (drop 1 s)), read_num (take 2 (drop 4 s)),
              read_num (take 2 (drop 7 s)), read_num (take 2 (drop 10 s)),
              read_num (take 2 (drop 13 s)),
              if length s = 20 then read_num (take 3 (drop 16 s)) else Some 0) of
          (Some m, Some d, Some hh, Some mi, Some ss, Some ms) \<Rightarrow>
            if m < 1 \<or> 12 < m \<or> d < 1 \<or> 31 < d \<or> 24 < hh \<or> 59 < mi \<or> 59 < ss
               \<or> (hh = 24 \<and> (mi \<noteq> 0 \<or> ss \<noteq> 0 \<or> ms \<noteq> 0)) then None
            else TimeClip (days_from_civil y m 1 * ms_per_day + (d - 1) * ms_per_day
                           + hh * 3600000 + mi * 60000 + ss * 1000 + ms)
        | _ \<Rightarrow> None)"

definition node_Date_parse :: "string \<Rightarrow> int option" where
  "node_Date_parse s =
     (case s of
        [] \<Rightarrow> None
      | c # cs \<Rightarrow>
          if c = CHR ''+'' \<or> c = CHR ''-'' then
            (case read_num (take 6 cs) of
               None \<Rightarrow> None
             | Some y \<Rightarrow>
                 if length (take 6 cs) \<noteq> 6 \<or> (c = CHR ''-'' \<and> y = 0) then None
                 else parse_after_year (if c = CHR ''-'' then - y else y) (drop 6 cs))
          else
            (case read_num (take 4 s) of
               None \<Rightarrow> None
             | Some y \<Rightarrow> if length (take 4 s) \<noteq> 4 then None else parse_after_year y (drop 4 s)))"

definition node :: platform where
  "node = \<lparr>Date_parse = node_Date_parse, toISOString = node_toISOString,
            toLocaleString_2digit = node_toLocaleString_2digit,
            toLocaleString_long = node_toLocaleString_long,
            addDays = (\<lambda>t n. TimeClip (t + n * ms_per_day))\<rparr>"

section \<open>The outside world\<close>

text \<open>
  Every network call and every reading of the clock is an operation on a world \<open>'w\<close>
  that returns its result with the world after it; a call that rejects returns \<open>Inl\<close>
  with the message of the Error it throws. The calls are awaited one after the other, so
  the world is threaded through them in program order.
\<close>

record course =
  c_id :: jsval
  c_name :: jsval

text \<open>
  An assignment as \<^verbatim>\<open>GET /courses/:id/assignments\<close> returns it. Canvas sends
  \<^verbatim>\<open>submission_types\<close> as an array of strings; \<open>None\<close> is an absent or null
  field.
\<close>

record canvas_assignment =
  a_id :: jsval
  a_name :: jsval
  a_description :: jsval
  a_due_at :: jsval
  a_points_possible :: jsval
  a_html_url :: jsval
  a_published :: jsval
  a_workflow_state :: jsval
  a_is_quiz_assignment :: jsval
  a_quiz_id :: jsval
  a_submission_types :: "string list option"
  a_discussion_topic :: jsval
  a_course_name :: jsval
  a_course_id :: jsval

record event_time =
  dateTime :: string
  timeZone :: string

record reminder =
  rem_method :: string
  minutes :: int

record reminders =
  useDefault :: bool
  overrides :: "reminder list"

record calendar_event =
  ev_summary :: string
  ev_description :: string
  ev_start :: event_time
  ev_end :: event_time
  ev_reminders :: "reminders option"

text \<open>An event of a \<^verbatim>\<open>listEvents\<close> answer, and the fields of a patch.\<close>

record listed_event =
  le_summary :: jsval
  le_start_dateTime :: jsval
  le_start_date :: jsval
  le_end_dateTime :: jsval
  le_end_date :: jsval
  le_id :: jsval
  le_htmlLink :: jsval

record patch_time =
  p_dateTime :: jsval
  p_timeZone :: jsval

record event_updates =
  upd_summary :: "jsval option"
  upd_description :: "jsval option"
  upd_start :: "patch_time option"
  upd_end :: "patch_time option"

record 'w env =
  fetchCourses :: "'w \<Rightarrow> (string + course list) \<times> 'w"
  fetchAssignments :: "'w \<Rightarrow> jsval \<Rightarrow> (string + canvas_assignment list) \<times> 'w"
  clock :: "'w \<Rightarrow> int \<times> 'w"
  createEvent :: "'w \<Rightarrow> calendar_event \<Rightarrow> (string + unit) \<times> 'w"
  listEvents :: "'w \<Rightarrow> string \<Rightarrow> string \<Rightarrow> int \<Rightarrow> (string + listed_event list option) \<times> 'w"
  updateEvent :: "'w \<Rightarrow> jsval \<Rightarrow> event_updates \<Rightarrow> (string + jsval \<times> jsval) \<times> 'w"

section \<open>canvas.ts\<close>

datatype kind = Quiz | Discussion | Assignment | Event

text \<open>\<^verbatim>\<open>types?.includes(s)\<close>, read as a condition.\<close>

definition types_include :: "string list option \<Rightarrow> string \<Rightarrow> bool" where
  "types_include ts s = (case ts of None \<Rightarrow> False | Some xs \<Rightarrow> s \<in> set xs)"

text \<open>
  A calendar event as \<^verbatim>\<open>detectItemType\<close> reads it: its \<^verbatim>\<open>type\<close> and an
  optional nested assignment.
\<close>

record canvas_event =
  e_type :: jsval
  e_assignment :: "canvas_assignment option"

text \<open>\<^verbatim>\<open>event.assignment?.f\<close>.\<close>

definition nested :: "(canvas_assignment \<Rightarrow> jsval) \<Rightarrow> canvas_event \<Rightarrow> jsval" where
  "nested f e = (case e_assignment e of None \<Rightarrow> JUndefined | Some a \<Rightarrow> f a)"

definition nested_types :: "canvas_event \<Rightarrow> string list option" where
  "nested_types e = (case e_assignment e of None \<Rightarrow> None | Some a \<Rightarrow> a_submission_types a)"

text \<open>
  \<^verbatim>\<open>detectItemType\<close>, a private method of \<^verbatim>\<open>CanvasClient\<close>. No method of the class
  calls it.
\<close>

definition detectItemType :: "canvas_event \<Rightarrow> kind" where
  "detectItemType e =
     (if truthy (nested a_quiz_id e) \<or> types_include (nested_types e) ''online_quiz'' then Quiz
      else if truthy (nested a_discussion_topic e)
              \<or> types_include (nested_types e) ''discussion_topic'' then Discussion
      else if e_assignment e \<noteq> None \<or> e_type e = JStr ''assignment'' then Assignment
      else Event)"

text \<open>An item as \<^verbatim>\<open>getUpcomingAssignments\<close> returns it.\<close>

record canvas_item =
  item_id :: jsval
  title :: jsval
  name :: jsval
  item_type :: kind
  due_at :: jsval
  start_at :: jsval
  end_at :: jsval
  all_day :: bool
  description :: jsval
  points_possible :: jsval
  context_name :: jsval
  context_code :: string
  workflow_state :: jsval
  html_url :: jsval
  assignment :: canvas_assignment

text \<open>Step 2 of \<^verbatim>\<open>getUpcomingAssignments\<close>: the course context put on an assignment.\<close>

definition stamp :: "course \<Rightarrow> canvas_assignment \<Rightarrow> canvas_assignment" where
  "stamp c a = a\<lparr>a_course_name := c_name c, a_course_id := c_id c\<rparr>"

text \<open>
  The loop over the courses. A fetch that throws is caught, and a new Error is thrown from
  the handler (\<^verbatim>\<open>DO NOT CONTINUE - Re-throw the error to fail fast\<close>).
\<close>

fun fetch_all :: "'w env \<Rightarrow> 'w \<Rightarrow> course list \<Rightarrow> canvas_assignment list
                  \<Rightarrow> (string + canvas_assignment list) \<times> 'w" where
  "fetch_all E w [] allAssignments = (Inr allAssignments, w)"
| "fetch_all E w (c # cs) allAssignments =
     (case fetchAssignments E w (c_id c) of
        (Inl errorMsg, w1) \<Rightarrow>
          (Inl (''Failed to fetch assignments for course '' @ [CHR 0x22] @ to_str (c_name c)
                  @ [CHR 0x22] @ '': '' @ errorMsg), w1)
      | (Inr assignments, w1) \<Rightarrow> fetch_all E w1 cs (allAssignments @ map (stamp c) assignments))"

text \<open>Step 3: published assignments with a due date.\<close>

definition keeps :: "canvas_assignment \<Rightarrow> bool" where
  "keeps a = (a_published a = JBool True \<and> truthy (a_due_at a))"

text \<open>Step 4: the kind, then the item.\<close>

definition transform_type :: "canvas_assignment \<Rightarrow> kind" where
  "transform_type a =
     (if truthy (a_is_quiz_assignment a) \<or> truthy (a_quiz_id a) then Quiz
      else if types_include (a_submission_types a) ''discussion_topic'' then Discussion
      else Assignment)"

definition transform :: "canvas_assignment \<Rightarrow> canvas_item" where
  "transform a =
     \<lparr>item_id = a_id a,
      title = a_name a,
      name = a_name a,
      item_type = transform_type a,
      due_at = a_due_at a,
      start_at = a_due_at a,
      end_at = a_due_at a,
      all_day = False,
      description = js_or (a_description a) (JStr []),
      points_possible = a_points_possible a,
      context_name = a_course_name a,
      context_code = ''course_'' @ to_str (a_course_id a),
      workflow_state = a_workflow_state a,
      html_url = a_html_url a,
      assignment = a\<rparr>"

definition getUpcomingAssignments :: "'w env \<Rightarrow> 'w \<Rightarrow> (string + canvas_item list) \<times> 'w" where
  "getUpcomingAssignments E w =
     (case fetchCourses E w of
        (Inl err, w1) \<Rightarrow> (Inl err, w1)
      | (Inr courses, w1) \<Rightarrow>
          (case fetch_all E w1 courses [] of
             (Inl err, w2) \<Rightarrow> (Inl err, w2)
           | (Inr allAssignments, w2) \<Rightarrow> (Inr (map transform (filter keeps allAssignments)), w2)))"

section \<open>index.ts\<close>

text \<open>
  What a tool call returns: a text, or a text with \<^verbatim>\<open>isError: true\<close> when the outer
  handler caught an Error.
\<close>

datatype response = Content string | IsError string

text \<open>
  \<^verbatim>\<open>(args?.x as number) || d\<close>: an absent argument and the number 0 are both falsy and
  give the default.
\<close>

definition or_default :: "int option \<Rightarrow> int \<Rightarrow> int" where
  "or_default a d = (case a of None \<Rightarrow> d | Some n \<Rightarrow> if n = 0 then d else n)"

definition nl :: string where
  "nl = [CHR 0x0A]"

fun join_str :: "string list \<Rightarrow> string \<Rightarrow> string" where
  "join_str [] sep = []"
| "join_str [x] sep = x"
| "join_str (x # y # ys) sep = x @ sep @ join_str (y # ys) sep"

subsection \<open>sync_to_calendar\<close>

text \<open>
  \<^verbatim>\<open>Math.ceil((dueDateUTC.getTime() - now.getTime()) / (1000 * 60 * 60 * 24))\<close>, in exact
  arithmetic. The double arithmetic of the runtime gives the same integer as long as the
  difference stays below \<open>2^53\<close> milliseconds, which every valid due date does while the
  clock reads a year between 1970 and 13000.
\<close>

definition daysDiff :: "int \<Rightarrow> int \<Rightarrow> int" where
  "daysDiff due now = \<lceil>real_of_int (due - now) / real_of_int (1000 * 60 * 60 * 24)\<rceil>"

text \<open>The \<^verbatim>\<open>skipped.push\<close> sites of the loop body, in source order.\<close>

datatype skip_site = NoDueDate | InvalidDueDate | OutsideWindow | ConversionFailed | EndConversionFailed

text \<open>How one pass through the \<^verbatim>\<open>try\<close> block ends.\<close>

datatype outcome = Synced string | Skipped skip_site string | Thrown string

text \<open>Whether a pass through the loop body ended at the given \<^verbatim>\<open>skipped.push\<close>.\<close>

fun skipped_at :: "skip_site \<Rightarrow> outcome \<Rightarrow> bool" where
  "skipped_at s (Skipped s' r) = (s = s')"
| "skipped_at s (Synced m) = False"
| "skipped_at s (Thrown m) = False"

text \<open>What the window branch has decided when it reaches \<^verbatim>\<open>createEvent\<close>.\<close>

datatype decision = Skip skip_site string | Throw string | Create calendar_event string

text \<open>The emoji are the UTF-8 bytes of U+1F4DA, U+1F4DD, U+1F4AC and U+1F4C5.\<close>

fun typeInfo :: "kind \<Rightarrow> string \<times> string" where
  "typeInfo Assignment = ([CHR 0xF0, CHR 0x9F, CHR 0x93, CHR 0x9A], ''Canvas Assignment'')"
| "typeInfo Quiz = ([CHR 0xF0, CHR 0x9F, CHR 0x93, CHR 0x9D], ''Canvas Quiz'')"
| "typeInfo Discussion = ([CHR 0xF0, CHR 0x9F, CHR 0x92, CHR 0xAC], ''Canvas Discussion'')"
| "typeInfo Event = ([CHR 0xF0, CHR 0x9F, CHR 0x93, CHR 0x85], ''Calendar Event'')"

definition dueAtField :: "canvas_item \<Rightarrow> jsval" where
  "dueAtField a = js_or (due_at a) (a_due_at (assignment a))"

definition nameField :: "canvas_item \<Rightarrow> jsval" where
  "nameField a = js_or (js_or (title a) (name a)) (a_name (assignment a))"

definition points_text :: "canvas_item \<Rightarrow> string" where
  "points_text a =
     to_str (js_or (js_or (points_possible a) (a_points_possible (assignment a))) (JStr ''N/A''))"

definition course_text :: "canvas_item \<Rightarrow> string" where
  "course_text a = to_str (js_or (context_name a) (JStr ''N/A''))"

definition link_text :: "canvas_item \<Rightarrow> string" where
  "link_text a = to_str (js_or (js_or (html_url a) (a_html_url (assignment a))) (JStr []))"

definition sync_reminders :: reminders where
  "sync_reminders =
     \<lparr>useDefault = False,
      overrides = [\<lparr>rem_method = ''popup'', minutes = 24 * 60\<rparr>,
                   \<lparr>rem_method = ''popup'', minutes = 60\<rparr>]\<rparr>"

text \<open>
  The body of \<^verbatim>\<open>if (daysDiff <= daysAhead && daysDiff > 0)\<close> up to the call of
  \<^verbatim>\<open>createEvent\<close>. \<^verbatim>\<open>endDate.toISOString()\<close> throws when the due time plus one
  hour is no valid time value.
\<close>

definition prepare_event :: "platform \<Rightarrow> canvas_item \<Rightarrow> int \<Rightarrow> decision" where
  "prepare_event P a dueDateUTC =
     (case convertToEST P (dueAtField a) of
        None \<Rightarrow> Skip ConversionFailed (to_str (nameField a) @ '' (date conversion failed)'')
      | Some dueEST \<Rightarrow>
          (case Date_toISOString P (TimeClip (dueDateUTC + 60 * 60 * 1000)) of
             Inl m \<Rightarrow> Throw m
           | Inr endISO \<Rightarrow>
               (case convertToEST P (JStr endISO) of
                  None \<Rightarrow>
                    Skip EndConversionFailed (to_str (nameField a) @ '' (end date conversion failed)'')
                | Some endEST \<Rightarrow>
                    let (emoji, label) = typeInfo (item_type a);
                        event =
                          \<lparr>ev_summary = emoji @ '' '' @ to_str (nameField a),
                           ev_description =
                             label @ nl @ nl @ ''Due: '' @ readable dueEST @ '' EST'' @ nl
                               @ ''Points: '' @ points_text a @ nl
                               @ ''Course: '' @ course_text a @ nl @ nl
                               @ ''Link: '' @ link_text a,
                           ev_start = \<lparr>dateTime = datetime dueEST, timeZone = ''America/New_York''\<rparr>,
                           ev_end = \<lparr>dateTime = datetime endEST, timeZone = ''America/New_York''\<rparr>,
                           ev_reminders = Some sync_reminders\<rparr>
                    in Create event
                         (to_str (nameField a) @ '' ('' @ label @ '') - Due: '' @ readable dueEST))))"

text \<open>\<^verbatim>\<open>await googleClient.createEvent(event)\<close>, then \<^verbatim>\<open>synced.push\<close>.\<close>

definition commit :: "'w env \<Rightarrow> 'w \<Rightarrow> calendar_event \<Rightarrow> string \<Rightarrow> outcome \<times> 'w" where
  "commit E w event syncMessage =
     (case createEvent E w event of
        (Inl m, w1) \<Rightarrow> (Thrown m, w1)
      | (Inr u, w1) \<Rightarrow> (Synced syncMessage, w1))"

definition window_branch :: "platform \<Rightarrow> 'w env \<Rightarrow> 'w \<Rightarrow> canvas_item \<Rightarrow> int \<Rightarrow> outcome \<times> 'w" where
  "window_branch P E w a dueDateUTC =
     (case prepare_event P a dueDateUTC of
        Skip site reason \<Rightarrow> (Skipped site reason, w)
      | Throw m \<Rightarrow> (Thrown m, w)
      | Create event syncMessage \<Rightarrow> commit E w event syncMessage)"

text \<open>
  The \<^verbatim>\<open>try\<close> block of the loop. The log line
  \<^verbatim>\<open>console.error(`  Parsed UTC date:`, dueDateUTC.toISOString())\<close> stands before the
  \<^verbatim>\<open>isNaN\<close> test and throws on an Invalid Date.
\<close>

definition sync_body :: "platform \<Rightarrow> 'w env \<Rightarrow> int \<Rightarrow> 'w \<Rightarrow> canvas_item \<Rightarrow> outcome \<times> 'w" where
  "sync_body P E daysAhead w a =
     (if \<not> truthy (dueAtField a) then
        (Skipped NoDueDate
           (to_str (js_or (nameField a) (JStr ''Unknown''))
              @ '' (no due date - checked due_at and assignment.due_at)''), w)
      else
        let dueDateUTC = Date_new P (dueAtField a) in
        case Date_toISOString P dueDateUTC of
          Inl m \<Rightarrow> (Thrown m, w)
        | Inr logged \<Rightarrow>
            (case dueDateUTC of
               None \<Rightarrow>
                 (Skipped InvalidDueDate
                    (to_str (nameField a) @ '' (invalid due date: '' @ to_str (dueAtField a) @ '')''), w)
             | Some due \<Rightarrow>
                 let (now, w1) = clock E w;
                     d = daysDiff due now
                 in if d \<le> daysAhead \<and> 0 < d then window_branch P E w1 a due
                    else
                      (Skipped OutsideWindow
                         (to_str (nameField a) @ '' (outside '' @ dec_int daysAhead
                            @ '' day window - '' @ dec_int d @ '' days away)''), w1)))"

text \<open>The reason the \<^verbatim>\<open>catch\<close> block pushes.\<close>

definition error_reason :: "canvas_item \<Rightarrow> string \<Rightarrow> string" where
  "error_reason a errorMessage =
     to_str (js_or (js_or (title a) (name a)) (JStr ''Unknown''))
       @ '' (error: '' @ errorMessage @ '')''"

text \<open>
  One iteration with its \<^verbatim>\<open>catch\<close>: the state is the world and the two lists
  \<^verbatim>\<open>synced\<close> and \<^verbatim>\<open>skipped\<close>.
\<close>

definition sync_item :: "platform \<Rightarrow> 'w env \<Rightarrow> int \<Rightarrow> 'w \<times> string list \<times> string list
                          \<Rightarrow> canvas_item \<Rightarrow> 'w \<times> string list \<times> string list" where
  "sync_item P E daysAhead st a =
     (case st of (w, synced, skipped) \<Rightarrow>
        (case sync_body P E daysAhead w a of
           (Synced syncMessage, w1) \<Rightarrow> (w1, synced @ [syncMessage], skipped)
         | (Skipped site skipReason, w1) \<Rightarrow> (w1, synced, skipped @ [skipReason])
         | (Thrown errorMessage, w1) \<Rightarrow>
             (w1, synced,
              skipped @ [error_reason a errorMessage])))"

fun sync_loop :: "platform \<Rightarrow> 'w env \<Rightarrow> int \<Rightarrow> 'w \<times> string list \<times> string list
                  \<Rightarrow> canvas_item list \<Rightarrow> 'w \<times> string list \<times> string list" where
  "sync_loop P E daysAhead st [] = st"
| "sync_loop P E daysAhead st (a # assignments) =
     sync_loop P E daysAhead (sync_item P E daysAhead st a) assignments"

definition resultText :: "string list \<Rightarrow> string list \<Rightarrow> string" where
  "resultText synced skipped =
     ''Successfully synced '' @ dec_nat (length synced)
       @ '' item(s) to Google Calendar (EST timezone):'' @ nl @ nl
       @ (if 0 < length synced then join_str synced nl else [])
       @ (if 0 < length skipped
          then nl @ nl @ ''Skipped '' @ dec_nat (length skipped) @ '' item(s):'' @ nl
                 @ join_str skipped nl
          else [])"

definition sync_to_calendar :: "platform \<Rightarrow> 'w env \<Rightarrow> int option \<Rightarrow> 'w \<Rightarrow> response \<times> 'w" where
  "sync_to_calendar P E daysAheadArg w =
     (let daysAhead = or_default daysAheadArg 14 in
      case getUpcomingAssignments E w of
        (Inl err, w1) \<Rightarrow> (IsError (''Error: '' @ err), w1)
      | (Inr assignments, w1) \<Rightarrow>
          (case sync_loop P E daysAhead (w1, [], []) assignments of
             (w2, synced, skipped) \<Rightarrow> (Content (resultText synced skipped), w2)))"

subsection \<open>list_calendar_events\<close>

text \<open>The bullet is U+2022 in UTF-8.\<close>

definition render_event :: "listed_event \<Rightarrow> string" where
  "render_event e =
     [CHR 0xE2, CHR 0x80, CHR 0xA2] @ '' '' @ to_str (js_or (le_summary e) (JStr ''Untitled''))
       @ nl @ ''  Start: '' @ to_str (js_or (le_start_dateTime e) (le_start_date e))
       @ nl @ ''  End: '' @ to_str (js_or (le_end_dateTime e) (le_end_date e))
       @ nl @ ''  ID: '' @ to_str (le_id e)
       @ (if truthy (le_htmlLink e) then nl @ ''  Link: '' @ to_str (le_htmlLink e) else [])"

definition list_calendar_events ::
  "platform \<Rightarrow> 'w env \<Rightarrow> int option \<Rightarrow> int option \<Rightarrow> 'w \<Rightarrow> response \<times> 'w" where
  "list_calendar_events P E daysAheadArg maxResultsArg w =
     (let daysAhead = or_default daysAheadArg 7;
          maxResults = or_default maxResultsArg 10;
          (now, w1) = clock E w;
          (today, w2) = clock E w1;
          futureDate = addDays P today daysAhead
      in case Date_toISOString P futureDate of
           Inl m \<Rightarrow> (IsError (''Error: '' @ m), w2)
         | Inr timeMax \<Rightarrow>
             (case listEvents E w2 (toISOString P now) timeMax maxResults of
                (Inl m, w3) \<Rightarrow> (IsError (''Error: '' @ m), w3)
              | (Inr items, w3) \<Rightarrow>
                  let evs = (case items of None \<Rightarrow> [] | Some xs \<Rightarrow> xs) in
                  if evs = [] then
                    (Content (''No upcoming events found in the next '' @ dec_int daysAhead
                                @ '' days.''), w3)
                  else
                    (Content (''Found '' @ dec_nat (length evs)
                                @ '' upcoming event(s) in the next '' @ dec_int daysAhead
                                @ '' days:'' @ nl @ nl
                                @ join_str (map render_event evs) (nl @ nl)), w3)))"

subsection \<open>update_calendar_event\<close>

record update_args =
  u_eventId :: jsval
  u_title :: jsval
  u_description :: jsval
  u_startTime :: jsval
  u_endTime :: jsval
  u_timezone :: jsval

definition build_updates :: "update_args \<Rightarrow> event_updates" where
  "build_updates args =
     \<lparr>upd_summary = (if truthy (u_title args) then Some (u_title args) else None),
      upd_description =
        (if u_description args \<noteq> JUndefined then Some (u_description args) else None),
      upd_start =
        (if truthy (u_startTime args)
         then Some \<lparr>p_dateTime = u_startTime args,
                     p_timeZone = js_or (u_timezone args) (JStr ''America/New_York'')\<rparr>
         else None),
      upd_end =
        (if truthy (u_endTime args)
         then Some \<lparr>p_dateTime = u_endTime args,
                     p_timeZone = js_or (u_timezone args) (JStr ''America/New_York'')\<rparr>
         else None)\<rparr>"

text \<open>
  The handler; \<^verbatim>\<open>updateEvent\<close> answers with the \<^verbatim>\<open>summary\<close> and the
  \<^verbatim>\<open>htmlLink\<close> of the patched event.
\<close>

definition update_calendar_event :: "'w env \<Rightarrow> update_args \<Rightarrow> 'w \<Rightarrow> response \<times> 'w" where
  "update_calendar_event E args w =
     (if \<not> truthy (u_eventId args) then (IsError ''Error: eventId is required'', w)
      else case updateEvent E w (u_eventId args) (build_updates args) of
        (Inl m, w1) \<Rightarrow> (IsError (''Error: '' @ m), w1)
      | (Inr (summary, htmlLink), w1) \<Rightarrow>
          (Content (''Event updated successfully!'' @ nl @ nl @ ''Event ID: ''
                      @ to_str (u_eventId args) @ nl @ ''Title: '' @ to_str summary @ nl
                      @ ''Link: '' @ to_str htmlLink), w1))"

section \<open>Concrete data\<close>

text \<open>
  A Canvas with one course and the assignments given, a clock that stands at
  2025-11-01T12:26:40Z, and a calendar whose world counts the calls of
  \<^verbatim>\<open>createEvent\<close>: the calls whose number is in \<open>failing\<close> answer with HTTP 500.
\<close>

definition blank_assignment :: canvas_assignment where
  "blank_assignment =
     \<lparr>a_id = JUndefined, a_name = JUndefined, a_description = JUndefined,
      a_due_at = JUndefined, a_points_possible = JUndefined, a_html_url = JUndefined,
      a_published = JUndefined, a_workflow_state = JUndefined,
      a_is_quiz_assignment = JUndefined, a_quiz_id = JUndefined,
      a_submission_types = None, a_discussion_topic = JUndefined,
      a_course_name = JUndefined, a_course_id = JUndefined\<rparr>"

definition published_assignment :: "int \<Rightarrow> string \<Rightarrow> string \<Rightarrow> canvas_assignment" where
  "published_assignment n title_text due =
     blank_assignment\<lparr>a_id := JNum n, a_name := JStr title_text, a_due_at := JStr due,
                       a_published := JBool True, a_points_possible := JNum 10,
                       a_submission_types := Some [''online_upload'']\<rparr>"

definition course_101 :: course where
  "course_101 = \<lparr>c_id = JNum 101, c_name = JStr ''Algebra''\<rparr>"

definition test_now :: int where
  "test_now = 1762000000000"

definition test_env :: "canvas_assignment list \<Rightarrow> nat list \<Rightarrow> nat env" where
  "test_env raws failing =
     \<lparr>fetchCourses = (\<lambda>w. (Inr [course_101], w)),
      fetchAssignments = (\<lambda>w cid. (Inr raws, w)),
      clock = (\<lambda>w. (test_now, w)),
      createEvent = (\<lambda>w ev. (if w \<in> set failing then Inl ''Google Calendar API error: 500''
                                else Inr (), Suc w)),
      listEvents = (\<lambda>w timeMin timeMax maxResults. (Inr None, w)),
      updateEvent = (\<lambda>w eventId updates. (Inr (JUndefined, JUndefined), w))\<rparr>"

definition three_due :: "canvas_assignment list" where
  "three_due =
     [published_assignment 1 ''Essay'' ''2025-11-08T04:59:59Z'',
      published_assignment 2 ''Lab report'' ''2025-11-05T17:00:00Z'',
      published_assignment 3 ''Problem set'' ''2025-11-10T23:30:00Z'']"

definition item_due :: "string \<Rightarrow> canvas_item" where
  "item_due due = transform (stamp course_101 (published_assignment 1 ''Essay'' due))"

definition three_items :: "canvas_item list" where
  "three_items = map transform (map (stamp course_101) three_due)"

text \<open>
  Raw assignments: a quiz that is also a discussion, an assignment marked as a quiz by its
  submission type only, and a published assignment with a due date and no name.
\<close>

definition quiz_with_discussion :: canvas_assignment where
  "quiz_with_discussion =
     (published_assignment 7 ''Reading quiz'' ''2025-11-08T04:59:59Z'')
       \<lparr>a_quiz_id := JNum 55, a_submission_types := Some [''discussion_topic'']\<rparr>"

definition online_quiz_only :: canvas_assignment where
  "online_quiz_only =
     (published_assignment 8 ''Quiz 1'' ''2025-11-08T04:59:59Z'')
       \<lparr>a_submission_types := Some [''online_quiz'']\<rparr>"

definition nameless :: canvas_assignment where
  "nameless =
     blank_assignment\<lparr>a_id := JNum 9, a_due_at := JStr ''2025-11-08T04:59:59Z'',
                       a_published := JBool True\<rparr>"

text \<open>
  A Canvas with three courses whose second course answers with HTTP 500; the world counts
  the assignment lists fetched.
\<close>

definition campus :: "nat env" where
  "campus =
     (test_env [] [])
       \<lparr>fetchCourses :=
          (\<lambda>w. (Inr [course_101, \<lparr>c_id = JNum 102, c_name = JStr ''Biology''\<rparr>,
                      \<lparr>c_id = JNum 103, c_name = JStr ''Chemistry''\<rparr>], w)),
        fetchAssignments :=
          (\<lambda>w cid. (if cid = JNum 102 then Inl ''Canvas API error: 500 Internal Server Error''
                     else Inr three_due, Suc w))\<rparr>"

text \<open>A calendar whose world is the list of the patches it was sent.\<close>

definition recorder :: "event_updates list env" where
  "recorder =
     \<lparr>fetchCourses = (\<lambda>w. (Inr [], w)),
      fetchAssignments = (\<lambda>w cid. (Inr [], w)),
      clock = (\<lambda>w. (test_now, w)),
      createEvent = (\<lambda>w ev. (Inr (), w)),
      listEvents = (\<lambda>w timeMin timeMax maxResults. (Inr None, w)),
      updateEvent = (\<lambda>w eventId updates. (Inr (JStr ''Office hours'', JUndefined), w @ [updates]))\<rparr>"

definition all_empty_update :: update_args where
  "all_empty_update =
     \<lparr>u_eventId = JStr ''ev1'', u_title = JStr [], u_description = JStr [],
      u_startTime = JStr [], u_endTime = JStr [], u_timezone = JUndefined\<rparr>"

section \<open>Facts about the helpers\<close>

lemma starts_with_iff: "starts_with p s \<longleftrightarrow> (\<exists>q. s = p @ q)"
  by (induction p s rule: starts_with.induct) auto

lemma includes_str_iff: "includes_str s sub \<longleftrightarrow> (\<exists>p q. s = p @ sub @ q)"
proof (induction s)
  case Nil
  then show ?case by auto
next
  case (Cons c cs)
  show ?case
  proof
    assume "includes_str (c # cs) sub"
    then consider "starts_with sub (c # cs)" | "includes_str cs sub" by auto
    then show "\<exists>p q. c # cs = p @ sub @ q"
    proof cases
      case 1
      then obtain q where "c # cs = sub @ q" by (auto simp: starts_with_iff)
      then have "c # cs = [] @ sub @ q" by simp
      then show ?thesis by blast
    next
      case 2
      with Cons obtain p q where "cs = p @ sub @ q" by auto
      then have "c # cs = (c # p) @ sub @ q" by simp
      then show ?thesis by blast
    qed
  next
    assume "\<exists>p q. c # cs = p @ sub @ q"
    then obtain p q where pq: "c # cs = p @ sub @ q" by blast
    show "includes_str (c # cs) sub"
    proof (cases p)
      case Nil
      with pq have "starts_with sub (c # cs)" by (auto simp: starts_with_iff)
      then show ?thesis by simp
    next
      case (Cons x xs)
      with pq have "cs = xs @ sub @ q" by simp
      with Cons.IH have "includes_str cs sub" by blast
      then show ?thesis by simp
    qed
  qed
qed

lemma includes_str_mid: "includes_str (p @ sub @ q) sub"
  by (auto simp: includes_str_iff)

lemma daysDiff_int: "daysDiff due now = - ((now - due) div 86400000)"
proof -
  have "daysDiff due now = \<lceil>real_of_int (due - now) / real_of_int 86400000\<rceil>"
    by (simp add: daysDiff_def)
  also have "\<dots> = - \<lfloor>real_of_int (now - due) / real_of_int 86400000\<rfloor>"
    by (simp add: ceiling_def minus_divide_left)
  also have "\<dots> = - ((now - due) div 86400000)"
    by (simp only: floor_divide_of_int_eq)
  finally show ?thesis .
qed

lemma daysDiff_bounds:
  "(daysDiff due now - 1) * 86400000 < due - now \<and> due - now \<le> daysDiff due now * 86400000"
proof -
  define q where "q = (now - due) div 86400000"
  define r where "r = (now - due) mod 86400000"
  have x: "now - due = q * 86400000 + r"
    by (simp add: q_def r_def)
  have r: "0 \<le> r" "r < 86400000"
    by (simp_all add: r_def)
  have d: "daysDiff due now = - q"
    by (simp add: daysDiff_int q_def)
  from x r show ?thesis unfolding d by (simp add: algebra_simps)
qed

subsection \<open>Evaluation\<close>

text \<open>
  The equations that compute the runtime model, the conversion, the Canvas pipeline and
  the sync loop on concrete data.
\<close>

lemmas date_defs = civil_from_days_def civil_doe_def civil_yoe_def civil_doy_def civil_mp_def
  civil_ymd_def days_from_civil_def era_days_def sunday_from_def ny_rule_def ny_offset_ms_def
  ny_local_def ms_per_day_def hms_def

lemmas text_defs = pad2_def pad3_def pad4_def pad6_def dec_int_def dec_nat.simps digit_char_def
  month_name_def

lemmas parse_defs = node_Date_parse_def parse_after_year_def read_num_def digit_val_def
  TimeClip_def

lemmas node_defs = node_def node_toISOString_def node_toLocaleString_2digit_def
  node_toLocaleString_long_def local_2digit_def local_long_def date_defs text_defs parse_defs

lemmas convert_defs = convertToEST_def split_str_def at_index_def Date_toISOString_def

lemmas canvas_defs = getUpcomingAssignments_def keeps_def transform_def transform_type_def
  stamp_def types_include_def js_or_def

lemmas sync_defs = sync_item_def sync_body_def window_branch_def prepare_event_def commit_def
  error_reason_def dueAtField_def nameField_def points_text_def course_text_def link_text_def
  sync_reminders_def nl_def daysDiff_int

lemmas data_defs = test_env_def test_now_def three_due_def three_items_def item_due_def
  published_assignment_def blank_assignment_def course_101_def quiz_with_discussion_def
  online_quiz_only_def nameless_def

lemma three_items_run:
  "sync_loop node (test_env three_due [1]) 14 (0, [], []) three_items
     = (3, [''Essay (Canvas Assignment) - Due: November 7, 2025 at 11:59 PM'',
            ''Problem set (Canvas Assignment) - Due: November 10, 2025 at 6:30 PM''],
           [''Lab report (error: Google Calendar API error: 500)''])"
  by (simp add: sync_defs convert_defs node_defs canvas_defs data_defs)

lemma three_items_fetched:
  "getUpcomingAssignments (test_env three_due failing) 0 = (Inr three_items, 0)"
  by (simp add: getUpcomingAssignments_def test_env_def three_items_def three_due_def keeps_def
        stamp_def published_assignment_def blank_assignment_def)

section \<open>The sync loop records every item once\<close>

text \<open>
  Each iteration appends one string to one of the two lists and leaves the entries
  already there alone, whichever way the \<^verbatim>\<open>try\<close> block ends.
\<close>

lemma sync_item_grows:
  "\<exists>xs ys. sync_item P E d (w, synced, skipped) a
            = (fst (sync_item P E d (w, synced, skipped) a), synced @ xs, skipped @ ys)
          \<and> length xs + length ys = 1"
  by (auto simp: sync_item_def split: prod.splits outcome.splits)

lemma sync_loop_appends:
  "sync_loop P E d (w, synced, skipped) items = (w', synced', skipped') \<Longrightarrow>
     \<exists>xs ys. synced' = synced @ xs \<and> skipped' = skipped @ ys
           \<and> length xs + length ys = length items"
proof (induction items arbitrary: w synced skipped)
  case Nil
  then show ?case by simp
next
  case (Cons a items)
  obtain w1 xs ys where step: "sync_item P E d (w, synced, skipped) a = (w1, synced @ xs, skipped @ ys)"
    and one: "length xs + length ys = 1"
    using sync_item_grows [of P E d w synced skipped a] by metis
  from Cons.prems step have "sync_loop P E d (w1, synced @ xs, skipped @ ys) items = (w', synced', skipped')"
    by simp
  from Cons.IH [OF this] obtain xs' ys' where
    "synced' = (synced @ xs) @ xs'" "skipped' = (skipped @ ys) @ ys'"
    "length xs' + length ys' = length items" by blast
  with one have "synced' = synced @ (xs @ xs') \<and> skipped' = skipped @ (ys @ ys')
      \<and> length (xs @ xs') + length (ys @ ys') = length (a # items)" by simp
  then show ?case by blast
qed

text \<open>
  C8. In a run of \<^verbatim>\<open>sync_to_calendar\<close> whose fetch succeeds, the loop ends with two
  lists whose lengths add up to the number of items \<^verbatim>\<open>getUpcomingAssignments\<close>
  returned, and the answer of the tool is built from these two lists: every item has left
  exactly one entry, in exactly one list.
\<close>

theorem sync_every_item_counted:
  assumes "getUpcomingAssignments E w = (Inr assignments, w1)"
  shows "\<exists>w2 synced skipped.
           sync_loop P E (or_default daysAheadArg 14) (w1, [], []) assignments = (w2, synced, skipped)
         \<and> sync_to_calendar P E daysAheadArg w = (Content (resultText synced skipped), w2)
         \<and> length synced + length skipped = length assignments"
proof -
  obtain w2 synced skipped where
    run: "sync_loop P E (or_default daysAheadArg 14) (w1, [], []) assignments = (w2, synced, skipped)"
    by (cases "sync_loop P E (or_default daysAheadArg 14) (w1, [], []) assignments") auto
  from sync_loop_appends [OF run] have "length synced + length skipped = length assignments"
    by auto
  moreover from assms run
  have "sync_to_calendar P E daysAheadArg w = (Content (resultText synced skipped), w2)"
    by (simp add: sync_to_calendar_def)
  ultimately show ?thesis using run by blast
qed

theorem sync_every_item_counted_witness:
  "getUpcomingAssignments (test_env three_due [1]) 0 = (Inr three_items, 0)
   \<and> length three_items = 3
   \<and> (\<exists>w2 synced skipped.
         sync_to_calendar node (test_env three_due [1]) None 0
           = (Content (resultText synced skipped), w2)
       \<and> length synced + length skipped = 3)"
proof -
  have l: "length three_items = 3"
    by (simp add: three_items_def three_due_def)
  note f = three_items_fetched [of "[1]"]
  from sync_every_item_counted [OF f, of node None] l f show ?thesis
    by auto
qed

section \<open>The sync window\<close>

lemma window_branch_not_outside:
  "\<not> skipped_at OutsideWindow (fst (window_branch P E w a due))"
  by (auto simp: window_branch_def prepare_event_def commit_def Let_def
           split: option.splits sum.splits prod.splits decision.splits)

lemma sync_body_parseable:
  assumes "truthy (dueAtField a)" and "Date_new P (dueAtField a) = Some due"
    and "clock E w = (now, w1)"
  shows "sync_body P E daysAhead w a =
           (if daysDiff due now \<le> daysAhead \<and> 0 < daysDiff due now
            then window_branch P E w1 a due
            else (Skipped OutsideWindow
                    (to_str (nameField a) @ '' (outside '' @ dec_int daysAhead
                       @ '' day window - '' @ dec_int (daysDiff due now) @ '' days away)''), w1))"
  using assms by (simp add: sync_body_def Date_toISOString_def Let_def)

text \<open>
  C1. For an item whose due date parses, \<^verbatim>\<open>daysDiff\<close> is the ceiling of the distance
  from the clock to the due time in days (the least integer whose multiple of a day is not
  below that distance), the pass ends at the outside-window skip exactly when
  \<open>0 < daysDiff \<le> daysAhead\<close> fails, and when it holds the item goes on into the branch
  that builds and creates the calendar event.
\<close>

theorem sync_window_rule:
  assumes "truthy (dueAtField a)" and "Date_new P (dueAtField a) = Some due"
    and "clock E w = (now, w1)"
  shows "((daysDiff due now - 1) * 86400000 < due - now \<and> due - now \<le> daysDiff due now * 86400000)
       \<and> (skipped_at OutsideWindow (fst (sync_body P E daysAhead w a))
            \<longleftrightarrow> \<not> (0 < daysDiff due now \<and> daysDiff due now \<le> daysAhead))
       \<and> (0 < daysDiff due now \<and> daysDiff due now \<le> daysAhead
            \<longrightarrow> sync_body P E daysAhead w a = window_branch P E w1 a due)"
proof -
  note body = sync_body_parseable [OF assms, of daysAhead]
  have "skipped_at OutsideWindow (fst (sync_body P E daysAhead w a))
          \<longleftrightarrow> \<not> (0 < daysDiff due now \<and> daysDiff due now \<le> daysAhead)"
    using window_branch_not_outside [of P E w1 a due] by (auto simp: body)
  moreover have "0 < daysDiff due now \<and> daysDiff due now \<le> daysAhead
                   \<longrightarrow> sync_body P E daysAhead w a = window_branch P E w1 a due"
    by (simp add: body)
  ultimately show ?thesis using daysDiff_bounds [of due now] by blast
qed

theorem sync_window_rule_witness:
  "daysDiff 1762000000000 test_now = 0
     \<and> skipped_at OutsideWindow
         (fst (sync_body node (test_env [] []) 14 0 (item_due ''2025-11-01T12:26:40Z'')))
   \<and> daysDiff 1762000001000 test_now = 1
     \<and> fst (sync_body node (test_env [] []) 1 0 (item_due ''2025-11-01T12:26:41Z''))
         = Synced ''Essay (Canvas Assignment) - Due: November 1, 2025 at 8:26 AM''
   \<and> daysDiff 1763209601000 test_now = 15
     \<and> skipped_at OutsideWindow
         (fst (sync_body node (test_env [] []) 14 0 (item_due ''2025-11-15T12:26:41Z'')))"
proof -
  let ?E = "test_env [] [] :: nat env"
  let ?a0 = "item_due ''2025-11-01T12:26:40Z''"
  let ?a1 = "item_due ''2025-11-01T12:26:41Z''"
  let ?a2 = "item_due ''2025-11-15T12:26:41Z''"
  have c: "clock ?E 0 = (test_now, 0)"
    by (simp add: test_env_def)
  have t0: "truthy (dueAtField ?a0)" and t1: "truthy (dueAtField ?a1)"
    and t2: "truthy (dueAtField ?a2)"
    by (simp_all add: dueAtField_def canvas_defs data_defs)
  have p0: "Date_new node (dueAtField ?a0) = Some 1762000000000"
    and p1: "Date_new node (dueAtField ?a1) = Some 1762000001000"
    and p2: "Date_new node (dueAtField ?a2) = Some 1763209601000"
    by (simp_all add: dueAtField_def canvas_defs data_defs node_defs)
  have d0: "daysDiff 1762000000000 test_now = 0"
    and d1: "daysDiff 1762000001000 test_now = 1"
    and d2: "daysDiff 1763209601000 test_now = 15"
    by (simp_all add: daysDiff_int test_now_def)
  have b1: "fst (window_branch node ?E 0 ?a1 1762000001000)
              = Synced ''Essay (Canvas Assignment) - Due: November 1, 2025 at 8:26 AM''"
    by (simp add: sync_defs convert_defs node_defs canvas_defs data_defs)
  from sync_window_rule [OF t0 p0 c, of 14] d0
  have r0: "skipped_at OutsideWindow (fst (sync_body node ?E 14 0 ?a0))"
    by simp
  from sync_window_rule [OF t1 p1 c, of 1] d1 b1
  have r1: "fst (sync_body node ?E 1 0 ?a1)
              = Synced ''Essay (Canvas Assignment) - Due: November 1, 2025 at 8:26 AM''"
    by simp
  from sync_window_rule [OF t2 p2 c, of 14] d2
  have r2: "skipped_at OutsideWindow (fst (sync_body node ?E 14 0 ?a2))"
    by simp
  from d0 r0 d1 r1 d2 r2 show ?thesis by blast
qed

section \<open>A failed creation does not stop the loop\<close>

lemma sync_loop_append:
  "sync_loop P E d st (xs @ ys) = sync_loop P E d (sync_loop P E d st xs) ys"
  by (induction xs arbitrary: st) auto

lemma sync_item_create_fails:
  assumes "truthy (dueAtField a)" and "Date_new P (dueAtField a) = Some due"
    and "clock E w = (now, w1)"
    and "0 < daysDiff due now" and "daysDiff due now \<le> d"
    and "prepare_event P a due = Create ev msg"
    and "createEvent E w1 ev = (Inl m, w2)"
  shows "sync_item P E d (w, synced, skipped) a = (w2, synced, skipped @ [error_reason a m])"
  using assms
  by (simp add: sync_item_def sync_body_parseable [OF assms(1-3)] window_branch_def commit_def)

lemma error_reason_has_message: "includes_str (error_reason a m) m"
proof -
  have "error_reason a m
          = (to_str (js_or (js_or (title a) (name a)) (JStr ''Unknown'')) @ '' (error: '') @ m @ '')''"
    by (simp add: error_reason_def)
  then show ?thesis by (simp only: includes_str_mid)
qed

text \<open>
  C5. Let the loop have reached an item with the state \<open>(w, synced, skipped)\<close>, let the
  item be admitted and its event built, and let \<^verbatim>\<open>createEvent\<close> throw an Error with
  message \<open>m\<close>. Then the Error is caught: \<^verbatim>\<open>synced\<close> is left as it is, one reason
  that contains \<open>m\<close> is appended to \<^verbatim>\<open>skipped\<close>, and the loop goes on with the
  items that follow.
\<close>

theorem sync_isolates_failure:
  assumes "sync_loop P E d st0 before = (w, synced, skipped)"
    and "truthy (dueAtField a)" and "Date_new P (dueAtField a) = Some due"
    and "clock E w = (now, w1)"
    and "0 < daysDiff due now" and "daysDiff due now \<le> d"
    and "prepare_event P a due = Create ev msg"
    and "createEvent E w1 ev = (Inl m, w2)"
  shows "sync_loop P E d st0 (before @ a # rest)
           = sync_loop P E d (w2, synced, skipped @ [error_reason a m]) rest
       \<and> includes_str (error_reason a m) m"
proof -
  have "sync_loop P E d st0 (before @ a # rest)
          = sync_loop P E d (sync_item P E d (w, synced, skipped) a) rest"
    using assms(1) by (simp add: sync_loop_append)
  also have "sync_item P E d (w, synced, skipped) a = (w2, synced, skipped @ [error_reason a m])"
    by (rule sync_item_create_fails [OF assms(2-8)])
  finally have "sync_loop P E d st0 (before @ a # rest)
                  = sync_loop P E d (w2, synced, skipped @ [error_reason a m]) rest" .
  then show ?thesis using error_reason_has_message [of a m] by simp
qed

text \<open>
  Three admissible items, the second creation fails: the first and the third are synced,
  the second is skipped with the message of the failure.
\<close>

theorem sync_isolates_failure_witness:
  "sync_loop node (test_env three_due [1]) 14 (0, [], [])
       ([three_items ! 0] @ three_items ! 1 # [three_items ! 2])
     = sync_loop node (test_env three_due [1]) 14
         (2, [''Essay (Canvas Assignment) - Due: November 7, 2025 at 11:59 PM''],
             [] @ [error_reason (three_items ! 1) ''Google Calendar API error: 500''])
         [three_items ! 2]
   \<and> includes_str (error_reason (three_items ! 1) ''Google Calendar API error: 500'')
         ''Google Calendar API error: 500''
   \<and> three_items = [three_items ! 0] @ three_items ! 1 # [three_items ! 2]
   \<and> sync_loop node (test_env three_due [1]) 14 (0, [], []) three_items
     = (3, [''Essay (Canvas Assignment) - Due: November 7, 2025 at 11:59 PM'',
            ''Problem set (Canvas Assignment) - Due: November 10, 2025 at 6:30 PM''],
           [''Lab report (error: Google Calendar API error: 500)''])"
proof -
  let ?E = "test_env three_due [1]"
  let ?a = "three_items ! 1"
  have items: "three_items = [three_items ! 0] @ ?a # [three_items ! 2]"
    by (simp add: three_items_def three_due_def)
  have first: "sync_loop node ?E 14 (0, [], []) [three_items ! 0]
                 = (1, [''Essay (Canvas Assignment) - Due: November 7, 2025 at 11:59 PM''], [])"
    by (simp add: sync_defs convert_defs node_defs canvas_defs data_defs)
  have t: "truthy (dueAtField ?a)"
    by (simp add: dueAtField_def canvas_defs data_defs)
  have p: "Date_new node (dueAtField ?a) = Some 1762362000000"
    by (simp add: dueAtField_def canvas_defs data_defs node_defs)
  have lo: "0 < daysDiff 1762362000000 test_now" and hi: "daysDiff 1762362000000 test_now \<le> 14"
    by (simp_all add: daysDiff_int test_now_def)
  have c: "clock ?E 1 = (test_now, 1)"
    by (simp add: test_env_def)
  have "case prepare_event node ?a 1762362000000 of Create ev msg \<Rightarrow> True | _ \<Rightarrow> False"
    by (simp add: sync_defs convert_defs node_defs canvas_defs data_defs)
  then obtain ev msg where pe: "prepare_event node ?a 1762362000000 = Create ev msg"
    by (cases "prepare_event node ?a 1762362000000") auto
  have fails: "createEvent ?E 1 ev = (Inl ''Google Calendar API error: 500'', 2)"
    by (simp add: test_env_def)
  from sync_isolates_failure [OF first t p c lo hi pe fails, of "[three_items ! 2]"]
    items three_items_run
  show ?thesis by blast
qed

section \<open>The event built for an admitted item\<close>

lemma includes_str_mid2: "includes_str (p @ s1 @ s2 @ q) (s1 @ s2)"
  using includes_str_mid [of p "s1 @ s2" q] by simp

lemma prepare_event_no_conversion:
  assumes "convertToEST P (dueAtField a) = None"
  shows "prepare_event P a due
           = Skip ConversionFailed (to_str (nameField a) @ '' (date conversion failed)'')"
  using assms by (simp add: prepare_event_def)

lemma prepare_event_no_end_conversion:
  assumes "convertToEST P (dueAtField a) = Some dueEST"
    and "\<bar>due + 3600000\<bar> \<le> 8640000000000000"
    and "convertToEST P (JStr (toISOString P (due + 3600000))) = None"
  shows "prepare_event P a due
           = Skip EndConversionFailed (to_str (nameField a) @ '' (end date conversion failed)'')"
  using assms by (simp add: prepare_event_def TimeClip_def Date_toISOString_def)

lemma prepare_event_creates:
  assumes "convertToEST P (dueAtField a) = Some dueEST"
    and "\<bar>due + 3600000\<bar> \<le> 8640000000000000"
    and "convertToEST P (JStr (toISOString P (due + 3600000))) = Some endEST"
  shows "\<exists>ev msg. prepare_event P a due = Create ev msg
           \<and> ev_start ev = \<lparr>dateTime = datetime dueEST, timeZone = ''America/New_York''\<rparr>
           \<and> ev_end ev = \<lparr>dateTime = datetime endEST, timeZone = ''America/New_York''\<rparr>
           \<and> ev_reminders ev = Some sync_reminders
           \<and> includes_str (ev_description ev) (''Points: '' @ points_text a)
           \<and> includes_str (ev_description ev) (''Course: '' @ course_text a)"
proof -
  obtain emoji label where ti: "typeInfo (item_type a) = (emoji, label)"
    by (cases "typeInfo (item_type a)") auto
  define d1 where "d1 = label @ nl @ nl @ ''Due: '' @ readable dueEST @ '' EST'' @ nl"
  define d2 where "d2 = nl @ ''Course: '' @ course_text a @ nl @ nl @ ''Link: '' @ link_text a"
  define d3 where "d3 = d1 @ ''Points: '' @ points_text a @ nl"
  define d4 where "d4 = nl @ nl @ ''Link: '' @ link_text a"
  define ev where "ev =
     \<lparr>ev_summary = emoji @ '' '' @ to_str (nameField a),
      ev_description = d1 @ ''Points: '' @ points_text a @ d2,
      ev_start = \<lparr>dateTime = datetime dueEST, timeZone = ''America/New_York''\<rparr>,
      ev_end = \<lparr>dateTime = datetime endEST, timeZone = ''America/New_York''\<rparr>,
      ev_reminders = Some sync_reminders\<rparr>"
  have "prepare_event P a due
          = Create ev (to_str (nameField a) @ '' ('' @ label @ '') - Due: '' @ readable dueEST)"
    using assms ti
    by (simp add: prepare_event_def TimeClip_def Date_toISOString_def ev_def d1_def d2_def)
  moreover have "includes_str (ev_description ev) (''Points: '' @ points_text a)"
    unfolding ev_def by (simp only: calendar_event.simps includes_str_mid2)
  moreover have "ev_description ev = d3 @ ''Course: '' @ course_text a @ d4"
    by (simp add: ev_def d1_def d2_def d3_def d4_def)
  then have "includes_str (ev_description ev) (''Course: '' @ course_text a)"
    by (simp only: includes_str_mid2)
  ultimately show ?thesis
    by (intro exI [of _ ev] exI [of _ "to_str (nameField a) @ '' ('' @ label @ '') - Due: '' @ readable dueEST"])
       (simp add: ev_def)
qed

lemma reason_conversion:
  "includes_str (n @ '' (date conversion failed)'') ''date conversion failed''"
proof -
  have "n @ '' (date conversion failed)'' = (n @ '' ('') @ ''date conversion failed'' @ '')''"
    by simp
  then show ?thesis by (simp only: includes_str_mid)
qed

lemma reason_end_conversion:
  "includes_str (n @ '' (end date conversion failed)'') ''end date conversion failed''"
proof -
  have "n @ '' (end date conversion failed)''
          = (n @ '' ('') @ ''end date conversion failed'' @ '')''"
    by simp
  then show ?thesis by (simp only: includes_str_mid)
qed

text \<open>
  What the window branch does while the due time plus one hour is a valid time value: when
  the conversion of the due date fails, the item is skipped with a reason that contains
  "date conversion failed"; otherwise the end of the event is the conversion of the due time
  plus 3600000 milliseconds, the item is skipped with a reason that contains
  "end date conversion failed" when that conversion fails, and else \<^verbatim>\<open>createEvent\<close>
  is called with an event that starts at the converted due time, ends at the converted end
  time, carries the popup reminders of 1440 and 60 minutes and names the points (or N/A)
  and the course (or N/A) in its description.
\<close>

lemma window_branch_in_range:
  assumes "truthy (dueAtField a)" and "Date_new P (dueAtField a) = Some due"
    and "clock E w = (now, w1)"
    and "0 < daysDiff due now" and "daysDiff due now \<le> daysAhead"
    and "\<bar>due + 3600000\<bar> \<le> 8640000000000000"
  shows
    "(convertToEST P (dueAtField a) = None \<longrightarrow>
        (\<exists>r. sync_body P E daysAhead w a = (Skipped ConversionFailed r, w1)
            \<and> includes_str r ''date conversion failed''))
     \<and> (\<forall>dueEST. convertToEST P (dueAtField a) = Some dueEST \<longrightarrow>
          (convertToEST P (JStr (toISOString P (due + 3600000))) = None \<longrightarrow>
             (\<exists>r. sync_body P E daysAhead w a = (Skipped EndConversionFailed r, w1)
                 \<and> includes_str r ''end date conversion failed''))
        \<and> (\<forall>endEST. convertToEST P (JStr (toISOString P (due + 3600000))) = Some endEST \<longrightarrow>
             (\<exists>ev msg. sync_body P E daysAhead w a = commit E w1 ev msg
                \<and> ev_start ev = \<lparr>dateTime = datetime dueEST, timeZone = ''America/New_York''\<rparr>
                \<and> ev_end ev = \<lparr>dateTime = datetime endEST, timeZone = ''America/New_York''\<rparr>
                \<and> ev_reminders ev
                    = Some \<lparr>useDefault = False,
                            overrides = [\<lparr>rem_method = ''popup'', minutes = 1440\<rparr>,
                                         \<lparr>rem_method = ''popup'', minutes = 60\<rparr>]\<rparr>
                \<and> includes_str (ev_description ev)
                     (''Points: '' @
                        (if truthy (points_possible a) then to_str (points_possible a)
                         else if truthy (a_points_possible (assignment a))
                              then to_str (a_points_possible (assignment a))
                         else ''N/A''))
                \<and> includes_str (ev_description ev)
                     (''Course: '' @
                        (if truthy (context_name a) then to_str (context_name a) else ''N/A'')))))"
proof -
  have body: "sync_body P E daysAhead w a = window_branch P E w1 a due"
    using sync_body_parseable [OF assms(1-3), of daysAhead] assms(4,5) by simp
  have pts: "points_text a
               = (if truthy (points_possible a) then to_str (points_possible a)
                  else if truthy (a_points_possible (assignment a))
                       then to_str (a_points_possible (assignment a))
                  else ''N/A'')"
    by (simp add: points_text_def js_or_def)
  have crs: "course_text a = (if truthy (context_name a) then to_str (context_name a) else ''N/A'')"
    by (simp add: course_text_def js_or_def)
  have rem: "sync_reminders
               = \<lparr>useDefault = False,
                  overrides = [\<lparr>rem_method = ''popup'', minutes = 1440\<rparr>,
                               \<lparr>rem_method = ''popup'', minutes = 60\<rparr>]\<rparr>"
    by (simp add: sync_reminders_def)
  have one: "convertToEST P (dueAtField a) = None \<longrightarrow>
        (\<exists>r. sync_body P E daysAhead w a = (Skipped ConversionFailed r, w1)
            \<and> includes_str r ''date conversion failed'')"
    using reason_conversion [of "to_str (nameField a)"]
    by (auto simp: body window_branch_def prepare_event_no_conversion)
  have two: "convertToEST P (JStr (toISOString P (due + 3600000))) = None \<longrightarrow>
             (\<exists>r. sync_body P E daysAhead w a = (Skipped EndConversionFailed r, w1)
                 \<and> includes_str r ''end date conversion failed'')"
    if "convertToEST P (dueAtField a) = Some dueEST" for dueEST
    using reason_end_conversion [of "to_str (nameField a)"]
      prepare_event_no_end_conversion [OF that assms(6)]
    by (auto simp: body window_branch_def)
  have three: "\<exists>ev msg. sync_body P E daysAhead w a = commit E w1 ev msg
                \<and> ev_start ev = \<lparr>dateTime = datetime dueEST, timeZone = ''America/New_York''\<rparr>
                \<and> ev_end ev = \<lparr>dateTime = datetime endEST, timeZone = ''America/New_York''\<rparr>
                \<and> ev_reminders ev = Some sync_reminders
                \<and> includes_str (ev_description ev) (''Points: '' @ points_text a)
                \<and> includes_str (ev_description ev) (''Course: '' @ course_text a)"
    if "convertToEST P (dueAtField a) = Some dueEST"
      and "convertToEST P (JStr (toISOString P (due + 3600000))) = Some endEST" for dueEST endEST
  proof -
    from prepare_event_creates [OF that(1) assms(6) that(2)] obtain ev msg where
      pe: "prepare_event P a due = Create ev msg"
      and props: "ev_start ev = \<lparr>dateTime = datetime dueEST, timeZone = ''America/New_York''\<rparr>"
        "ev_end ev = \<lparr>dateTime = datetime endEST, timeZone = ''America/New_York''\<rparr>"
        "ev_reminders ev = Some sync_reminders"
        "includes_str (ev_description ev) (''Points: '' @ points_text a)"
        "includes_str (ev_description ev) (''Course: '' @ course_text a)"
      by blast
    have "sync_body P E daysAhead w a = commit E w1 ev msg"
      by (simp add: body window_branch_def pe)
    with props show ?thesis by blast
  qed
  from one two three show ?thesis
    unfolding pts crs rem by blast
qed

text \<open>
  Beyond that range \<^verbatim>\<open>endDate\<close> is an Invalid Date and
  \<^verbatim>\<open>endDate.toISOString()\<close> throws before \<^verbatim>\<open>convertToEST\<close> is called, so the
  test \<^verbatim>\<open>if (!endEST)\<close> that follows is never reached: the pass ends in the
  \<^verbatim>\<open>catch\<close> block.
\<close>

lemma prepare_event_end_out_of_range:
  assumes "convertToEST P (dueAtField a) = Some dueEST"
    and "8640000000000000 < \<bar>due + 3600000\<bar>"
  shows "prepare_event P a due = Throw ''Invalid time value''"
  using assms by (simp add: prepare_event_def TimeClip_def Date_toISOString_def)

lemma sync_item_end_out_of_range:
  assumes "truthy (dueAtField a)" and "Date_new P (dueAtField a) = Some due"
    and "clock E w = (now, w1)"
    and "0 < daysDiff due now" and "daysDiff due now \<le> daysAhead"
    and "convertToEST P (dueAtField a) = Some dueEST"
    and "8640000000000000 < \<bar>due + 3600000\<bar>"
  shows "sync_body P E daysAhead w a = (Thrown ''Invalid time value'', w1)
       \<and> sync_item P E daysAhead (w, synced, skipped) a
           = (w1, synced, skipped @ [error_reason a ''Invalid time value''])"
proof -
  have "sync_body P E daysAhead w a = window_branch P E w1 a due"
    using sync_body_parseable [OF assms(1-3), of daysAhead] assms(4,5) by simp
  then have "sync_body P E daysAhead w a = (Thrown ''Invalid time value'', w1)"
    by (simp add: window_branch_def prepare_event_end_out_of_range [OF assms(6,7)])
  then show ?thesis by (simp add: sync_item_def)
qed

text \<open>
  C7. The claim holds inside the range of time values and is what the branch is written to
  do: a failed end date conversion is to be reported as "end date conversion failed". The
  code misses the one case where the end date can fail on the runtime. The due date below
  is the last valid time value; the item is admitted under a window of 100000000 days and
  its due date converts, but the due time plus one hour is an Invalid Date,
  \<^verbatim>\<open>endDate.toISOString()\<close> throws, no event is created (the calendar is not called),
  and the reason pushed by the \<^verbatim>\<open>catch\<close> block is "Essay (error: Invalid time value)",
  which does not contain "end date conversion failed".
\<close>

theorem sync_end_date_failing_input:
  "truthy (dueAtField (item_due ''+275760-09-13T00:00:00.000Z''))
   \<and> Date_new node (dueAtField (item_due ''+275760-09-13T00:00:00.000Z'')) = Some 8640000000000000
   \<and> 0 < daysDiff 8640000000000000 test_now
   \<and> daysDiff 8640000000000000 test_now \<le> 100000000
   \<and> convertToEST node (dueAtField (item_due ''+275760-09-13T00:00:00.000Z''))
       = Some \<lparr>datetime = ''275760-09-12T20:00:00'',
               readable = ''September 12, 275760 at 8:00 PM''\<rparr>
   \<and> TimeClip (8640000000000000 + 60 * 60 * 1000) = None
   \<and> sync_body node (test_env [] []) 100000000 0 (item_due ''+275760-09-13T00:00:00.000Z'')
       = (Thrown ''Invalid time value'', 0)
   \<and> \<not> skipped_at EndConversionFailed
         (fst (sync_body node (test_env [] []) 100000000 0
                 (item_due ''+275760-09-13T00:00:00.000Z'')))
   \<and> sync_item node (test_env [] []) 100000000 (0, [], [])
         (item_due ''+275760-09-13T00:00:00.000Z'')
       = (0, [], [''Essay (error: Invalid time value)''])
   \<and> \<not> includes_str ''Essay (error: Invalid time value)'' ''end date conversion failed''"
  by (simp add: sync_defs convert_defs node_defs canvas_defs data_defs)

section \<open>The conversion across a date boundary\<close>

text \<open>
  C6. \<^verbatim>\<open>convertToEST("2025-11-08T04:59:59Z")\<close> on the runtime model: the instant is
  8 November 2025 in UTC and 7 November 2025 on the wall clock of New York (standard time,
  five hours behind), the local datetime is exactly \<^verbatim>\<open>2025-11-07T23:59:59\<close> and the
  display string contains "November 7, 2025".
\<close>

theorem convertToEST_crosses_date:
  "node_Date_parse ''2025-11-08T04:59:59Z'' = Some 1762577999000
   \<and> node_toISOString 1762577999000 = ''2025-11-08T04:59:59.000Z''
   \<and> convertToEST node (JStr ''2025-11-08T04:59:59Z'')
       = Some \<lparr>datetime = ''2025-11-07T23:59:59'', readable = ''November 7, 2025 at 11:59 PM''\<rparr>
   \<and> includes_str ''November 7, 2025 at 11:59 PM'' ''November 7, 2025''
   \<and> civil_from_days (1762577999000 div ms_per_day) = (2025, 11, 8)
   \<and> civil_from_days (ny_local 1762577999000 div ms_per_day) = (2025, 11, 7)"
  by (simp add: convert_defs node_defs)

theorem convertToEST_crosses_date_witness:
  "(case convertToEST node (JStr ''2025-11-08T04:59:59Z'') of
      None \<Rightarrow> False
    | Some r \<Rightarrow> datetime r = ''2025-11-07T23:59:59'' \<and> includes_str (readable r) ''November 7, 2025'')"
  using convertToEST_crosses_date by simp

section \<open>The kind of an item\<close>

lemma getUpcomingAssignments_items:
  assumes "getUpcomingAssignments E w = (Inr items, w')" and "x \<in> set items"
  shows "\<exists>a. x = transform a \<and> keeps a"
  using assms
  by (auto simp: getUpcomingAssignments_def split: prod.splits sum.splits)

text \<open>
  The priority order quiz, discussion, assignment, event, with the markers the claim
  names, is the one of \<^verbatim>\<open>detectItemType\<close>, which reads the nested assignment of a
  calendar event.
\<close>

lemma detectItemType_priority:
  "detectItemType e =
     (if truthy (nested a_quiz_id e) \<or> types_include (nested_types e) ''online_quiz'' then Quiz
      else if truthy (nested a_discussion_topic e)
              \<or> types_include (nested_types e) ''discussion_topic'' then Discussion
      else if e_assignment e \<noteq> None \<or> e_type e = JStr ''assignment'' then Assignment
      else Event)"
  by (simp add: detectItemType_def)

lemma detectItemType_quiz_wins:
  "truthy (nested a_quiz_id e) \<or> types_include (nested_types e) ''online_quiz''
     \<Longrightarrow> detectItemType e = Quiz"
  by (simp add: detectItemType_def)

text \<open>
  C2, as the code has it. \<^verbatim>\<open>getUpcomingAssignments\<close> does not call
  \<^verbatim>\<open>detectItemType\<close>. The kind of every item it returns is quiz when the assignment has
  a truthy \<^verbatim>\<open>is_quiz_assignment\<close> or \<^verbatim>\<open>quiz_id\<close>; otherwise discussion when its
  submission types include \<^verbatim>\<open>discussion_topic\<close>; otherwise assignment. It is never
  event, and a quiz identifier wins over a discussion marker.
\<close>

theorem transform_kind_rule:
  assumes "getUpcomingAssignments E w = (Inr items, w')" and "x \<in> set items"
  shows "item_type x =
           (if truthy (a_is_quiz_assignment (assignment x)) \<or> truthy (a_quiz_id (assignment x))
            then Quiz
            else if types_include (a_submission_types (assignment x)) ''discussion_topic''
                 then Discussion
            else Assignment)
       \<and> item_type x \<noteq> Event
       \<and> (truthy (a_quiz_id (assignment x)) \<longrightarrow> item_type x = Quiz)"
proof -
  from getUpcomingAssignments_items [OF assms] obtain a where "x = transform a" by blast
  then show ?thesis by (simp add: transform_def transform_type_def)
qed

theorem transform_kind_rule_witness:
  "getUpcomingAssignments (test_env [quiz_with_discussion] []) 0
     = (Inr [transform (stamp course_101 quiz_with_discussion)], 0)
   \<and> truthy (a_quiz_id (assignment (transform (stamp course_101 quiz_with_discussion))))
   \<and> types_include (a_submission_types (assignment (transform (stamp course_101 quiz_with_discussion))))
        ''discussion_topic''
   \<and> item_type (transform (stamp course_101 quiz_with_discussion)) = Quiz"
proof -
  let ?x = "transform (stamp course_101 quiz_with_discussion)"
  have f: "getUpcomingAssignments (test_env [quiz_with_discussion] []) 0 = (Inr [?x], 0)"
    by (simp add: getUpcomingAssignments_def test_env_def keeps_def stamp_def
          quiz_with_discussion_def published_assignment_def blank_assignment_def)
  have m: "?x \<in> set [?x]"
    by simp
  have q: "truthy (a_quiz_id (assignment ?x))"
    and d: "types_include (a_submission_types (assignment ?x)) ''discussion_topic''"
    by (simp_all add: canvas_defs data_defs)
  from transform_kind_rule [OF f m] q d f show ?thesis by simp
qed

text \<open>
  The claim as stated fails on an assignment whose only quiz marker is the submission type
  \<^verbatim>\<open>online_quiz\<close>: \<^verbatim>\<open>detectItemType\<close> would call it a quiz, the item returned
  is an assignment.
\<close>

theorem transform_kind_counterexample:
  "types_include (a_submission_types online_quiz_only) ''online_quiz''
   \<and> detectItemType \<lparr>e_type = JUndefined, e_assignment = Some online_quiz_only\<rparr> = Quiz
   \<and> getUpcomingAssignments (test_env [online_quiz_only] []) 0
       = (Inr [transform (stamp course_101 online_quiz_only)], 0)
   \<and> item_type (transform (stamp course_101 online_quiz_only)) = Assignment"
  by (simp add: canvas_defs data_defs detectItemType_def nested_def nested_types_def)

section \<open>What an item is built from\<close>

text \<open>
  C3, as the code has it. Every item \<^verbatim>\<open>getUpcomingAssignments\<close> returns is built from
  a raw assignment that is published and has a truthy top-level \<^verbatim>\<open>due_at\<close>, which the
  item carries as its own; an assignment without one, or not published, yields no item.
  The title and the name of the item are the \<^verbatim>\<open>name\<close> of the raw assignment, whatever
  it is: no step tests it.
\<close>

theorem items_have_due_date:
  assumes "getUpcomingAssignments E w = (Inr items, w')" and "x \<in> set items"
  shows "truthy (due_at x) \<and> due_at x = a_due_at (assignment x)
       \<and> a_published (assignment x) = JBool True
       \<and> title x = a_name (assignment x) \<and> name x = a_name (assignment x)"
proof -
  from getUpcomingAssignments_items [OF assms] obtain a where "x = transform a" "keeps a"
    by blast
  then show ?thesis by (simp add: transform_def keeps_def)
qed

theorem items_have_due_date_witness:
  "getUpcomingAssignments (test_env three_due []) 0 = (Inr three_items, 0)
   \<and> three_items ! 0 \<in> set three_items
   \<and> due_at (three_items ! 0) = JStr ''2025-11-08T04:59:59Z''
   \<and> truthy (due_at (three_items ! 0))
   \<and> title (three_items ! 0) = JStr ''Essay''
   \<and> getUpcomingAssignments
         (test_env [blank_assignment\<lparr>a_name := JStr ''No date'', a_published := JBool True\<rparr>] []) 0
       = (Inr [], 0)"
proof -
  note f = three_items_fetched [of "[]"]
  have m: "three_items ! 0 \<in> set three_items"
    by (simp add: three_items_def three_due_def)
  have d: "a_due_at (assignment (three_items ! 0)) = JStr ''2025-11-08T04:59:59Z''"
    and n: "a_name (assignment (three_items ! 0)) = JStr ''Essay''"
    by (simp_all add: canvas_defs data_defs)
  have e: "getUpcomingAssignments
             (test_env [blank_assignment\<lparr>a_name := JStr ''No date'', a_published := JBool True\<rparr>] []) 0
           = (Inr [], 0)"
    by (simp add: canvas_defs data_defs)
  from items_have_due_date [OF f m] d n f m e show ?thesis by simp
qed

text \<open>
  The claim as stated fails on a published assignment with a due date and no name: an item
  is returned for it, and its title is \<^verbatim>\<open>undefined\<close>.
\<close>

theorem nameless_item_counterexample:
  "a_name nameless = JUndefined
   \<and> getUpcomingAssignments (test_env [nameless] []) 0
       = (Inr [transform (stamp course_101 nameless)], 0)
   \<and> title (transform (stamp course_101 nameless)) = JUndefined
   \<and> nameField (transform (stamp course_101 nameless)) = JUndefined"
  by (simp add: canvas_defs data_defs nameField_def)

section \<open>Fetching fails fast\<close>

lemma fetch_all_append:
  "fetch_all E w (xs @ ys) acc =
     (case fetch_all E w xs acc of
        (Inl err, w1) \<Rightarrow> (Inl err, w1)
      | (Inr got, w1) \<Rightarrow> fetch_all E w1 ys got)"
  by (induction xs arbitrary: w acc) (auto split: prod.splits sum.splits)

text \<open>A course whose fetch raises in every world makes the loop raise, wherever it stands.\<close>

lemma fetch_all_raises:
  assumes "c \<in> set cs"
    and "\<And>w1. \<exists>msg w2. fetchAssignments E w1 (c_id c) = (Inl msg, w2)"
  shows "\<exists>err w2. fetch_all E w cs acc = (Inl err, w2)"
  using assms(1)
proof (induction cs arbitrary: w acc)
  case Nil
  then show ?case by simp
next
  case (Cons c' cs)
  show ?case
  proof (cases "fetchAssignments E w (c_id c')")
    case (Pair r w1)
    show ?thesis
    proof (cases r)
      case (Inl msg)
      with Pair show ?thesis by simp
    next
      case (Inr got)
      with Pair assms(2) [of w] have "c' \<noteq> c" by auto
      with Cons.prems have "c \<in> set cs" by simp
      from Cons.IH [OF this] Pair Inr show ?thesis by simp
    qed
  qed
qed

lemma getUpcomingAssignments_raises:
  assumes "fetchCourses E w = (Inr courses, w1)" and "c \<in> set courses"
    and "\<And>w1. \<exists>msg w2. fetchAssignments E w1 (c_id c) = (Inl msg, w2)"
  shows "\<exists>err w2. getUpcomingAssignments E w = (Inl err, w2)"
proof -
  from fetch_all_raises [OF assms(2,3)] obtain err w2 where
    "fetch_all E w1 courses [] = (Inl err, w2)" by blast
  with assms(1) show ?thesis by (simp add: getUpcomingAssignments_def)
qed

text \<open>
  C4. Let the courses be fetched, let the assignment lists of the courses \<open>before\<close> be
  fetched without a fault, and let the fetch for the next course \<open>c\<close> raise with message
  \<open>msg\<close>. Then \<^verbatim>\<open>getUpcomingAssignments\<close> raises: its result is the Error
  "Failed to fetch assignments for course ..." and no list of items, the assignments
  \<open>got\<close> of the earlier courses are dropped, and the world is the one the failing call
  left, so no later course is fetched.
\<close>

theorem fetch_fails_fast:
  assumes "fetchCourses E w = (Inr (before @ c # rest), w1)"
    and "fetch_all E w1 before [] = (Inr got, w2)"
    and "fetchAssignments E w2 (c_id c) = (Inl msg, w3)"
  shows "getUpcomingAssignments E w
           = (Inl (''Failed to fetch assignments for course '' @ [CHR 0x22] @ to_str (c_name c)
                     @ [CHR 0x22] @ '': '' @ msg), w3)"
  using assms by (simp add: getUpcomingAssignments_def fetch_all_append)

text \<open>Three courses, the second raises: the call raises after two fetches.\<close>

theorem fetch_fails_fast_witness:
  "fetchCourses campus 0
     = (Inr ([course_101] @ \<lparr>c_id = JNum 102, c_name = JStr ''Biology''\<rparr>
               # [\<lparr>c_id = JNum 103, c_name = JStr ''Chemistry''\<rparr>]), 0)
   \<and> fetch_all campus 0 [course_101] [] = (Inr (map (stamp course_101) three_due), 1)
   \<and> fetchAssignments campus 1 (JNum 102)
       = (Inl ''Canvas API error: 500 Internal Server Error'', 2)
   \<and> getUpcomingAssignments campus 0
       = (Inl (''Failed to fetch assignments for course '' @ [CHR 0x22] @ ''Biology''
                 @ [CHR 0x22] @ '': Canvas API error: 500 Internal Server Error''), 2)"
proof -
  let ?b = "\<lparr>c_id = JNum 102, c_name = JStr ''Biology''\<rparr>"
  have cs: "fetchCourses campus 0
              = (Inr ([course_101] @ ?b # [\<lparr>c_id = JNum 103, c_name = JStr ''Chemistry''\<rparr>]), 0)"
    by (simp add: campus_def test_env_def)
  have one: "fetch_all campus 0 [course_101] [] = (Inr (map (stamp course_101) three_due), 1)"
    by (simp add: campus_def test_env_def course_101_def)
  have two: "fetchAssignments campus 1 (c_id ?b)
               = (Inl ''Canvas API error: 500 Internal Server Error'', 2)"
    by (simp add: campus_def test_env_def)
  from fetch_fails_fast [OF cs one two] cs one two show ?thesis by simp
qed

section \<open>Zero as an argument\<close>

lemma three_items_synced:
  "sync_to_calendar node (test_env three_due [1]) None 0
     = (Content (resultText
          [''Essay (Canvas Assignment) - Due: November 7, 2025 at 11:59 PM'',
           ''Problem set (Canvas Assignment) - Due: November 10, 2025 at 6:30 PM'']
          [''Lab report (error: Google Calendar API error: 500)'']), 3)"
  using three_items_run by (simp add: sync_to_calendar_def or_default_def three_items_fetched)

text \<open>
  C9. The number 0 is falsy, so \<^verbatim>\<open>|| d\<close> replaces it by the default as it does an
  absent argument: \<^verbatim>\<open>sync_to_calendar\<close> with \<^verbatim>\<open>daysAhead = 0\<close> is the call without
  the argument and the call with 14, \<^verbatim>\<open>list_calendar_events\<close> with
  \<^verbatim>\<open>daysAhead = 0\<close> or \<^verbatim>\<open>maxResults = 0\<close> is the call without that argument and
  the call with 7 or 10, and the window in force is never 0.
\<close>

theorem zero_argument_is_default:
  "sync_to_calendar P E (Some 0) w = sync_to_calendar P E None w
   \<and> sync_to_calendar P E None w = sync_to_calendar P E (Some 14) w
   \<and> list_calendar_events P E (Some 0) maxResults w = list_calendar_events P E None maxResults w
   \<and> list_calendar_events P E None maxResults w = list_calendar_events P E (Some 7) maxResults w
   \<and> list_calendar_events P E daysAhead (Some 0) w = list_calendar_events P E daysAhead None w
   \<and> list_calendar_events P E daysAhead None w = list_calendar_events P E daysAhead (Some 10) w
   \<and> or_default (Some 0) 14 = 14 \<and> or_default (Some 0) 7 = 7 \<and> or_default (Some 0) 10 = 10
   \<and> or_default a 14 \<noteq> 0 \<and> or_default a 7 \<noteq> 0 \<and> or_default a 10 \<noteq> 0"
  by (simp add: sync_to_calendar_def list_calendar_events_def or_default_def split: option.splits)

text \<open>With \<^verbatim>\<open>daysAhead = 0\<close> the three items due within two weeks are still processed.\<close>

theorem zero_argument_is_default_witness:
  "sync_to_calendar node (test_env three_due [1]) (Some 0) 0
     = (Content (resultText
          [''Essay (Canvas Assignment) - Due: November 7, 2025 at 11:59 PM'',
           ''Problem set (Canvas Assignment) - Due: November 10, 2025 at 6:30 PM'']
          [''Lab report (error: Google Calendar API error: 500)'']), 3)"
  using zero_argument_is_default [of node "test_env three_due [1]" 0] three_items_synced
  by simp

section \<open>Empty strings in an update\<close>

lemma update_handler_reads:
  "u_eventId a = u_eventId b \<Longrightarrow> build_updates a = build_updates b
     \<Longrightarrow> update_calendar_event E a w = update_calendar_event E b w"
  by (simp add: update_calendar_event_def split: prod.splits sum.splits)

text \<open>
  C10. The patch \<^verbatim>\<open>update_calendar_event\<close> sends carries a description whenever the
  argument is not \<^verbatim>\<open>undefined\<close>, so also the empty string, and carries a summary, a
  start and an end only for a truthy argument: an empty title, start time or end time gives
  the same patch, and the same run of the handler, as an absent one.
\<close>

theorem update_empty_strings:
  "upd_description (build_updates args)
     = (if u_description args = JUndefined then None else Some (u_description args))
   \<and> upd_summary (build_updates args)
     = (if truthy (u_title args) then Some (u_title args) else None)
   \<and> map_option p_dateTime (upd_start (build_updates args))
     = (if truthy (u_startTime args) then Some (u_startTime args) else None)
   \<and> map_option p_dateTime (upd_end (build_updates args))
     = (if truthy (u_endTime args) then Some (u_endTime args) else None)
   \<and> upd_description (build_updates (args\<lparr>u_description := JStr []\<rparr>)) = Some (JStr [])
   \<and> upd_description (build_updates (args\<lparr>u_description := JUndefined\<rparr>)) = None
   \<and> update_calendar_event E (args\<lparr>u_title := JStr []\<rparr>) w
     = update_calendar_event E (args\<lparr>u_title := JUndefined\<rparr>) w
   \<and> update_calendar_event E (args\<lparr>u_startTime := JStr []\<rparr>) w
     = update_calendar_event E (args\<lparr>u_startTime := JUndefined\<rparr>) w
   \<and> update_calendar_event E (args\<lparr>u_endTime := JStr []\<rparr>) w
     = update_calendar_event E (args\<lparr>u_endTime := JUndefined\<rparr>) w"
proof -
  have "update_calendar_event E (args\<lparr>u_title := JStr []\<rparr>) w
          = update_calendar_event E (args\<lparr>u_title := JUndefined\<rparr>) w"
    by (rule update_handler_reads) (simp_all add: build_updates_def)
  moreover have "update_calendar_event E (args\<lparr>u_startTime := JStr []\<rparr>) w
          = update_calendar_event E (args\<lparr>u_startTime := JUndefined\<rparr>) w"
    by (rule update_handler_reads) (simp_all add: build_updates_def)
  moreover have "update_calendar_event E (args\<lparr>u_endTime := JStr []\<rparr>) w
          = update_calendar_event E (args\<lparr>u_endTime := JUndefined\<rparr>) w"
    by (rule update_handler_reads) (simp_all add: build_updates_def)
  ultimately show ?thesis
    by (simp add: build_updates_def)
qed

text \<open>
  An update whose title, description, start and end are all empty strings: the patch sent
  holds the empty description and nothing else.
\<close>

theorem update_empty_strings_witness:
  "update_calendar_event recorder all_empty_update []
     = update_calendar_event recorder (all_empty_update\<lparr>u_title := JUndefined\<rparr>) []
   \<and> snd (update_calendar_event recorder all_empty_update [])
     = [\<lparr>upd_summary = None, upd_description = Some (JStr []), upd_start = None, upd_end = None\<rparr>]"
proof -
  have same: "all_empty_update\<lparr>u_title := JStr []\<rparr> = all_empty_update"
    by (simp add: all_empty_update_def)
  have sent: "snd (update_calendar_event recorder all_empty_update [])
                = [\<lparr>upd_summary = None, upd_description = Some (JStr []), upd_start = None,
                    upd_end = None\<rparr>]"
    by (simp add: update_calendar_event_def build_updates_def recorder_def all_empty_update_def)
  from update_empty_strings [of all_empty_update recorder "[]"] same sent show ?thesis
    by simp
qed

end
